theory Spec2Isabelle
  imports Complex_Main "HOL-Library.Char_ord" "HOL-Library.List_Lexorder" "HOL-Library.Sublist"
begin

section \<open>Clock and window evaluation (surveillance\_service.py)\<close>

text \<open>
  A capture window is one entry of \<open>CAPTURE_WINDOWS\<close>: a dictionary with the four keys
  \<open>start_hour\<close>, \<open>start_minute\<close>, \<open>end_hour\<close>, \<open>end_minute\<close>.  The current time enters every
  function as an argument (\<open>datetime.now()\<close> read once by the caller), hours and minutes as
  Python integers.
\<close>

record capture_window =
  start_hour :: int
  start_minute :: int
  end_hour :: int
  end_minute :: int

definition start_total_minutes :: "capture_window \<Rightarrow> int" where
  "start_total_minutes window = start_hour window * 60 + start_minute window"

definition end_total_minutes :: "capture_window \<Rightarrow> int" where
  "end_total_minutes window = end_hour window * 60 + end_minute window"

text \<open>
  \<open>SurveillanceService.is_in_capture_window\<close>: the \<open>for\<close> loop over the configured windows
  returns at the first window that contains the current minute of the day.
\<close>

fun is_in_capture_window ::
  "capture_window list \<Rightarrow> int \<Rightarrow> int \<Rightarrow> bool \<times> capture_window option" where
  "is_in_capture_window [] current_hour current_minute = (False, None)"
| "is_in_capture_window (window # rest) current_hour current_minute =
     (let current_total_minutes = current_hour * 60 + current_minute in
      if start_total_minutes window \<le> current_total_minutes
         \<and> current_total_minutes < end_total_minutes window
      then (True, Some window)
      else is_in_capture_window rest current_hour current_minute)"

text \<open>
  \<open>SurveillanceService.is_in_time_window\<close>, used for the processing window: only the hour
  of the current time is read.
\<close>

definition is_in_time_window :: "int \<Rightarrow> int \<Rightarrow> int \<Rightarrow> bool" where
  "is_in_time_window process_start_hour process_end_hour current_hour =
     (if process_start_hour < process_end_hour
      then process_start_hour \<le> current_hour \<and> current_hour \<le> process_end_hour
      else current_hour \<ge> process_start_hour \<or> current_hour < process_end_hour)"

text \<open>
  The specification's notion of membership, written from its words: a window is half-open,
  \<open>start \<le> now < end\<close>, all three as minutes since local midnight.
\<close>

definition half_open_member :: "int \<Rightarrow> int \<Rightarrow> int \<Rightarrow> bool" where
  "half_open_member window_start window_end now = (window_start \<le> now \<and> now < window_end)"


section \<open>GPU telemetry and scaling decisions (process\_videos\_orchestrator.py)\<close>

definition TEMP_SCALE_UP_THRESHOLD :: int where "TEMP_SCALE_UP_THRESHOLD = 70"
definition TEMP_SCALE_DOWN_THRESHOLD :: int where "TEMP_SCALE_DOWN_THRESHOLD = 75"
definition TEMP_EMERGENCY_THRESHOLD :: int where "TEMP_EMERGENCY_THRESHOLD = 80"
definition GPU_UTIL_SCALE_UP_THRESHOLD :: int where "GPU_UTIL_SCALE_UP_THRESHOLD = 70"
definition GPU_UTIL_SCALE_DOWN_THRESHOLD :: int where "GPU_UTIL_SCALE_DOWN_THRESHOLD = 85"
definition MIN_MEMORY_FREE_GB :: real where "MIN_MEMORY_FREE_GB = 2"
definition SCALE_COOLDOWN_SECONDS :: real where "SCALE_COOLDOWN_SECONDS = 60"

text \<open>
  The metrics dictionary.  Temperature and utilisation are the integers the driver reports;
  the memory figures are quotients of integers by a power of two and are kept as exact
  numbers.
\<close>

record gpu_metrics =
  temperature :: int
  gpu_utilization :: int
  memory_free_gb :: real
  memory_total_gb :: real
  memory_used_gb :: real

text \<open>
  \<open>_get_metrics_nvidia_smi\<close> after the subprocess call: \<open>values\<close> is the parsed output line
  (temperature, utilisation, used MB, total MB).  A short line raises \<open>IndexError\<close>, which
  the function's own \<open>except\<close> turns into \<open>None\<close>.
\<close>

fun metrics_of_nvidia_smi :: "int list \<Rightarrow> gpu_metrics option" where
  "metrics_of_nvidia_smi (temp # util # mem_used_mb # mem_total_mb # extra) =
     (let mem_free_mb = mem_total_mb - mem_used_mb in
      Some \<lparr> temperature = temp, gpu_utilization = util,
             memory_free_gb = real_of_int mem_free_mb / 1024,
             memory_total_gb = real_of_int mem_total_mb / 1024,
             memory_used_gb = real_of_int mem_used_mb / 1024 \<rparr>)"
| "metrics_of_nvidia_smi short = None"

text \<open>The fields of \<open>DynamicGPUMonitor\<close> that the decisions read.\<close>

record gpu_monitor =
  min_workers :: int
  max_workers :: int
  last_scale_time :: real

text \<open>
  \<open>should_scale_up\<close>, \<open>should_scale_down\<close> and \<open>is_emergency\<close>.  A missing sample
  (\<open>not metrics\<close>) is \<open>None\<close>; \<open>now\<close> is the value of \<open>time.time()\<close>.
\<close>

definition should_scale_up :: "gpu_monitor \<Rightarrow> gpu_metrics option \<Rightarrow> int \<Rightarrow> real \<Rightarrow> bool" where
  "should_scale_up self metrics current_workers now =
     (case metrics of
        None \<Rightarrow> False
      | Some m \<Rightarrow>
          if current_workers \<ge> max_workers self then False
          else if now - last_scale_time self < SCALE_COOLDOWN_SECONDS then False
          else temperature m < TEMP_SCALE_UP_THRESHOLD
               \<and> gpu_utilization m < GPU_UTIL_SCALE_UP_THRESHOLD
               \<and> memory_free_gb m > MIN_MEMORY_FREE_GB)"

definition should_scale_down :: "gpu_monitor \<Rightarrow> gpu_metrics option \<Rightarrow> int \<Rightarrow> bool" where
  "should_scale_down self metrics current_workers =
     (case metrics of
        None \<Rightarrow> False
      | Some m \<Rightarrow>
          if current_workers \<le> min_workers self then False
          else temperature m > TEMP_SCALE_DOWN_THRESHOLD
               \<or> gpu_utilization m > GPU_UTIL_SCALE_DOWN_THRESHOLD
               \<or> memory_free_gb m < 1)"

definition is_emergency :: "gpu_metrics option \<Rightarrow> bool" where
  "is_emergency metrics =
     (case metrics of
        None \<Rightarrow> False
      | Some m \<Rightarrow> temperature m \<ge> TEMP_EMERGENCY_THRESHOLD)"

text \<open>
  One pass of the body of \<open>ProcessingQueue._gpu_monitoring_thread\<close>: which branch of the
  \<open>if / if / elif\<close> chain is taken for a sample.
\<close>

datatype scaling_action = EMERGENCY | SCALE_DOWN | SCALE_UP | HOLD

definition gpu_monitoring_decision ::
  "gpu_monitor \<Rightarrow> gpu_metrics option \<Rightarrow> int \<Rightarrow> real \<Rightarrow> scaling_action" where
  "gpu_monitoring_decision monitor metrics current_worker_count now =
     (case metrics of
        None \<Rightarrow> HOLD
      | Some m \<Rightarrow>
          if is_emergency metrics then EMERGENCY
          else if should_scale_down monitor metrics current_worker_count then SCALE_DOWN
          else if should_scale_up monitor metrics current_worker_count now then SCALE_UP
          else HOLD)"

text \<open>
  The specification's scale-up row, written from its words: temperature below 70,
  utilisation below 70, at least 2 GB free, the 60 s cooldown elapsed, and fewer workers
  than the maximum.
\<close>

definition spec_scale_up :: "gpu_monitor \<Rightarrow> gpu_metrics \<Rightarrow> int \<Rightarrow> real \<Rightarrow> bool" where
  "spec_scale_up monitor m workers now =
     (temperature m < 70 \<and> gpu_utilization m < 70 \<and> memory_free_gb m \<ge> 2
      \<and> now - last_scale_time monitor \<ge> 60 \<and> workers < max_workers monitor)"


section \<open>Dispatching one job (process\_videos\_orchestrator.py)\<close>

text \<open>
  The analysis runner's terminal exit code (table\_and\_region\_state\_detection.py): the
  duplicate-session check leaves with \<open>sys.exit(2)\<close> ("skipped, not an error") before any
  processing; otherwise \<open>main\<close> returns 0 on success and 1 on failure.
\<close>

definition runner_exit_code :: "bool \<Rightarrow> bool \<Rightarrow> int" where
  "runner_exit_code existing success =
     (if existing then 2 else if success then 0 else 1)"

text \<open>
  What \<open>subprocess.run\<close> gave back inside \<open>ProcessingQueue.process_job\<close>: a return code, or
  an exception caught by the surrounding \<open>except Exception\<close>.
\<close>

datatype run_result = Returncode int | RunException

record queue_stats =
  jobs_completed :: nat
  jobs_failed :: nat
  total_processing_time :: real

definition process_job :: "queue_stats \<Rightarrow> run_result \<Rightarrow> real \<Rightarrow> queue_stats \<times> bool" where
  "process_job self result elapsed =
     (case result of
        Returncode rc \<Rightarrow>
          if rc = 0
          then (self\<lparr> jobs_completed := jobs_completed self + 1,
                      total_processing_time := total_processing_time self + elapsed \<rparr>, True)
          else (self\<lparr> jobs_failed := jobs_failed self + 1 \<rparr>, False)
      | RunException \<Rightarrow> (self\<lparr> jobs_failed := jobs_failed self + 1 \<rparr>, False))"


section \<open>Segmented capture (capture\_rtsp\_streams.py)\<close>

definition SEGMENT_DURATION_SECONDS :: int where "SEGMENT_DURATION_SECONDS = 60"
definition FFMPEG_TIMEOUT :: int where "FFMPEG_TIMEOUT = 10000000"
definition FFMPEG_ANALYZEDURATION :: int where "FFMPEG_ANALYZEDURATION = 5000000"
definition FFMPEG_PROBESIZE :: int where "FFMPEG_PROBESIZE = 5000000"
definition FFMPEG_STREAM_COPY :: bool where "FFMPEG_STREAM_COPY = True"

text \<open>
  The fields of \<open>DirectFFmpegCapture\<close> that the command line is built from.  A command is
  a list of arguments; \<open>Num n\<close> stands for the text \<open>str(n)\<close> of an integer.
\<close>

record ffmpeg_capture =
  rtsp_url :: string
  segment_duration :: int
  rtsp_transport :: string

datatype arg = Lit string | Num int

text \<open>\<open>DirectFFmpegCapture._start_ffmpeg_segment\<close>: the argument vector handed to \<open>Popen\<close>.\<close>

definition start_ffmpeg_segment :: "ffmpeg_capture \<Rightarrow> string \<Rightarrow> arg list" where
  "start_ffmpeg_segment self output_path =
     [Lit ''ffmpeg'',
      Lit ''-rtsp_transport'', Lit (rtsp_transport self),
      Lit ''-stimeout'', Num FFMPEG_TIMEOUT,
      Lit ''-analyzeduration'', Num FFMPEG_ANALYZEDURATION,
      Lit ''-probesize'', Num FFMPEG_PROBESIZE,
      Lit ''-i'', Lit (rtsp_url self),
      Lit ''-c:v'', Lit (if FFMPEG_STREAM_COPY then ''copy'' else ''libx264''),
      Lit ''-c:a'', Lit ''copy'',
      Lit ''-movflags'', Lit ''+frag_keyframe+empty_moov'',
      Lit ''-t'', Num (segment_duration self),
      Lit ''-y'',
      Lit output_path]"

text \<open>The value that follows an option in an argument vector, as ffmpeg reads it.\<close>

fun option_value :: "string \<Rightarrow> arg list \<Rightarrow> arg option" where
  "option_value name (Lit a # v # rest) =
     (if a = name then Some v else option_value name (v # rest))"
| "option_value name (a # rest) = option_value name rest"
| "option_value name [] = None"

text \<open>
  One iteration of the recording loop of \<open>DirectFFmpegCapture.capture_video\<close>, at
  \<open>elapsed_total\<close> seconds into a session of \<open>duration_seconds\<close>: \<open>None\<close> is the
  \<open>break\<close> at the target duration, otherwise the command started for the segment.
\<close>

definition capture_iteration ::
  "ffmpeg_capture \<Rightarrow> real \<Rightarrow> real \<Rightarrow> string \<Rightarrow> arg list option" where
  "capture_iteration self duration_seconds elapsed_total output_file =
     (if elapsed_total \<ge> duration_seconds then None
      else
        let remaining_duration = duration_seconds - elapsed_total;
            current_segment_duration = min (real_of_int (segment_duration self)) remaining_duration
        in Some (start_ffmpeg_segment self output_file))"

text \<open>
  The loop itself.  What happens outside the program drives it: for each started segment,
  whether \<open>Popen\<close> raised (the loop breaks) or the wall-clock time the segment took, its
  capture plus, after a failure, the 5 s pause.  The result lists the commands built until
  the target duration is reached.  \<open>capture_video\<close> first checks the network and returns
  without recording when it is unhealthy.
\<close>

datatype segment_run = Took real | PopenFailed

fun capture_loop ::
  "ffmpeg_capture \<Rightarrow> real \<Rightarrow> real \<Rightarrow> segment_run list \<Rightarrow> arg list list" where
  "capture_loop self duration_seconds elapsed_total [] = []"
| "capture_loop self duration_seconds elapsed_total (run # later) =
     (case capture_iteration self duration_seconds elapsed_total ''segment.mp4'' of
        None \<Rightarrow> []
      | Some cmd \<Rightarrow>
          (case run of
             PopenFailed \<Rightarrow> [cmd]
           | Took seconds \<Rightarrow>
               cmd # capture_loop self duration_seconds (elapsed_total + seconds) later))"

definition capture_video ::
  "ffmpeg_capture \<Rightarrow> real \<Rightarrow> bool \<Rightarrow> segment_run list \<Rightarrow> arg list list" where
  "capture_video self duration_seconds is_healthy runs =
     (if \<not> is_healthy then [] else capture_loop self duration_seconds 0 runs)"


section \<open>Local store and cloud replication (sync\_to\_supabase.py)\<close>

text \<open>
  SQLite values.  \<open>VBool\<close> occurs only in the dictionaries sent to the cloud.
  A stored row and a fetched \<open>sqlite3.Row\<close> are association lists from column names to
  values; a table is the list of its rows and the database maps table names to tables.
\<close>

datatype val = VNull | VInt int | VReal real | VText string | VBool bool

type_synonym row = "(string \<times> val) list"

type_synonym database = "string \<Rightarrow> row list"

datatype py_error = IndexError | OperationalError

text \<open>A column of a stored row; a column without a value reads as \<open>NULL\<close>.\<close>

definition col :: "row \<Rightarrow> string \<Rightarrow> val" where
  "col r c = (case map_of r c of Some v \<Rightarrow> v | None \<Rightarrow> VNull)"

fun set_col :: "row \<Rightarrow> string \<Rightarrow> val \<Rightarrow> row" where
  "set_col [] c v = [(c, v)]"
| "set_col ((k, w) # r) c v = (if k = c then (k, v) # r else (k, w) # set_col r c v)"

text \<open>
  SQL comparisons as a \<open>WHERE\<close> clause reads them: a comparison with \<open>NULL\<close> is not
  true, numbers compare by value, every number sorts before every text, texts compare
  bytewise.
\<close>

fun sql_eq :: "val \<Rightarrow> val \<Rightarrow> bool" where
  "sql_eq (VInt a) (VInt b) = (a = b)"
| "sql_eq (VInt a) (VReal b) = (real_of_int a = b)"
| "sql_eq (VReal a) (VInt b) = (a = real_of_int b)"
| "sql_eq (VReal a) (VReal b) = (a = b)"
| "sql_eq (VText a) (VText b) = (a = b)"
| "sql_eq a b = False"

fun sql_lt :: "val \<Rightarrow> val \<Rightarrow> bool" where
  "sql_lt (VInt a) (VInt b) = (a < b)"
| "sql_lt (VInt a) (VReal b) = (real_of_int a < b)"
| "sql_lt (VReal a) (VInt b) = (a < real_of_int b)"
| "sql_lt (VReal a) (VReal b) = (a < b)"
| "sql_lt (VInt a) (VText b) = True"
| "sql_lt (VReal a) (VText b) = True"
| "sql_lt (VText a) (VText b) = (a < b)"
| "sql_lt a b = False"

fun sql_ge :: "val \<Rightarrow> val \<Rightarrow> bool" where
  "sql_ge (VInt a) (VInt b) = (a \<ge> b)"
| "sql_ge (VInt a) (VReal b) = (real_of_int a \<ge> b)"
| "sql_ge (VReal a) (VInt b) = (a \<ge> real_of_int b)"
| "sql_ge (VReal a) (VReal b) = (a \<ge> b)"
| "sql_ge (VText a) (VInt b) = True"
| "sql_ge (VText a) (VReal b) = True"
| "sql_ge (VText a) (VText b) = (a \<ge> b)"
| "sql_ge a b = False"

text \<open>\<open>x IN (?, ..., ?)\<close> with the bound values \<open>ids\<close>.\<close>

definition sql_in :: "val \<Rightarrow> val list \<Rightarrow> bool" where
  "sql_in x ids = list_ex (sql_eq x) ids"

text \<open>\<open>SELECT c1, ..., cn\<close>: the fetched row has exactly the selected columns.\<close>

definition select_columns :: "string list \<Rightarrow> row \<Rightarrow> row" where
  "select_columns cols r = map (\<lambda>c. (c, col r c)) cols"

text \<open>The two \<open>WHERE\<close> conditions the replicator uses.\<close>

definition where_unsynced :: "row \<Rightarrow> bool" where
  "where_unsynced r = sql_eq (col r ''synced_to_cloud'') (VInt 0)"

text \<open>
  A Python \<open>datetime\<close> without a zone, by its fields; \<open>datetime.now()\<close> is the local wall
  clock.  Two of them compare field by field from the year down.  The sqlite3 module binds
  a \<open>datetime\<close> parameter as the text of \<open>isoformat(" ")\<close>: \<open>YYYY-MM-DD HH:MM:SS\<close>, followed
  by \<open>.ffffff\<close> when the microsecond is not zero.  Subtracting \<open>timedelta(hours=h)\<close> is the
  library's calendar arithmetic; it enters the model as the parameter \<open>minus_hours\<close>.
\<close>

record datetime =
  year :: nat
  month :: nat
  day :: nat
  hour :: nat
  minute :: nat
  second :: nat
  microsecond :: nat



definition digit_char_of :: "nat \<Rightarrow> char" where
  "digit_char_of d = ''0123456789'' ! (d mod 10)"

fun zero_padded :: "nat \<Rightarrow> nat \<Rightarrow> string" where
  "zero_padded 0 n = []"
| "zero_padded (Suc width) n = zero_padded width (n div 10) @ [digit_char_of n]"

definition adapt_datetime :: "datetime \<Rightarrow> string" where
  "adapt_datetime d =
     zero_padded 4 (year d) @ ''-'' @ zero_padded 2 (month d) @ ''-'' @ zero_padded 2 (day d)
     @ '' '' @ zero_padded 2 (hour d) @ '':'' @ zero_padded 2 (minute d)
     @ '':'' @ zero_padded 2 (second d)
     @ (if microsecond d = 0 then [] else ''.'' @ zero_padded 6 (microsecond d))"


text \<open>\<open>AND created_at >= ?\<close>, added to a query when a cut-off is passed.\<close>

definition where_since :: "datetime option \<Rightarrow> row \<Rightarrow> bool" where
  "where_since cutoff_time r =
     (case cutoff_time of
        None \<Rightarrow> True
      | Some c \<Rightarrow> sql_ge (col r ''created_at'') (VText (adapt_datetime c)))"

definition BATCH_SIZE :: nat where "BATCH_SIZE = 1000"

text \<open>
  The fields of \<open>SupabaseSyncManager\<close>.  \<open>supabase\<close> is the content of the cloud database
  as far as this client added to it: the accepted batch inserts, in order, each with its
  cloud table.
\<close>

record sync_manager =
  dry_run :: bool
  local_db :: database
  supabase :: "(string \<times> row list) list"
  location_id :: val
  division_states_synced :: nat
  table_states_synced :: nat
  sessions_synced :: nat
  videos_synced :: nat
  errors :: nat

text \<open>
  The rows each \<open>sync_*\<close> method selects from its table, before the projection to the
  selected columns, and the column lists of the four \<open>SELECT\<close> statements.
\<close>

definition videos_query :: "datetime option \<Rightarrow> database \<Rightarrow> row list" where
  "videos_query cutoff_time db = filter (where_since cutoff_time) (db ''videos'')"

definition sessions_query :: "datetime option \<Rightarrow> database \<Rightarrow> row list" where
  "sessions_query cutoff_time db = filter (where_since cutoff_time) (db ''sessions'')"

definition division_states_query :: "datetime option \<Rightarrow> database \<Rightarrow> row list" where
  "division_states_query cutoff_time db =
     filter (\<lambda>r. where_unsynced r \<and> where_since cutoff_time r) (db ''division_states'')"

definition table_states_query :: "datetime option \<Rightarrow> database \<Rightarrow> row list" where
  "table_states_query cutoff_time db =
     filter (\<lambda>r. where_unsynced r \<and> where_since cutoff_time r) (db ''table_states'')"

definition video_columns :: "string list" where
  "video_columns =
     [''video_id'', ''camera_id'', ''video_filename'', ''video_date'', ''start_time'',
      ''end_time'', ''duration_seconds'', ''file_size_bytes'', ''fps'', ''resolution'',
      ''is_processed'', ''storage_location'']"

definition session_columns :: "string list" where
  "session_columns =
     [''session_id'', ''camera_id'', ''video_id'', ''location_id'', ''config_file_path'',
      ''roi_version'', ''start_time'', ''end_time'', ''total_frames'', ''fps'', ''resolution'',
      ''processing_status'', ''processing_time_seconds'', ''error_message'']"

definition division_state_columns :: "string list" where
  "division_state_columns =
     [''session_id'', ''camera_id'', ''location_id'', ''frame_number'', ''timestamp_video'',
      ''timestamp_recorded'', ''state'', ''walking_area_waiters'', ''service_area_waiters'',
      ''total_staff'']"

definition table_state_columns :: "string list" where
  "table_state_columns =
     [''session_id'', ''camera_id'', ''location_id'', ''frame_number'', ''timestamp_video'',
      ''timestamp_recorded'', ''table_id'', ''state'', ''customers_count'', ''waiters_count'']"

text \<open>
  \<open>row[key]\<close> on a fetched row raises \<open>IndexError\<close> for a column that was not selected.
  The transform functions build the cloud dictionary key by key.
\<close>

definition row_get :: "row \<Rightarrow> string \<Rightarrow> py_error + val" where
  "row_get record key = (case map_of record key of None \<Rightarrow> Inl IndexError | Some v \<Rightarrow> Inr v)"

fun row_get_all :: "string list \<Rightarrow> row \<Rightarrow> py_error + row" where
  "row_get_all [] record = Inr []"
| "row_get_all (key # keys) record =
     (case row_get record key of
        Inl e \<Rightarrow> Inl e
      | Inr v \<Rightarrow> (case row_get_all keys record of
                   Inl e \<Rightarrow> Inl e
                 | Inr d \<Rightarrow> Inr ((key, v) # d)))"

fun py_bool :: "val \<Rightarrow> bool" where
  "py_bool VNull = False"
| "py_bool (VInt i) = (i \<noteq> 0)"
| "py_bool (VReal x) = (x \<noteq> 0)"
| "py_bool (VText s) = (s \<noteq> [])"
| "py_bool (VBool b) = b"

definition transform_video :: "row \<Rightarrow> py_error + row" where
  "transform_video record =
     (case row_get_all (remove1 ''video_id'' video_columns) record of
        Inl e \<Rightarrow> Inl e
      | Inr d \<Rightarrow> Inr (map (\<lambda>(k, v). if k = ''is_processed'' then (k, VBool (py_bool v)) else (k, v)) d))"

definition transform_session :: "row \<Rightarrow> py_error + row" where
  "transform_session record = row_get_all session_columns record"

definition transform_division_state :: "row \<Rightarrow> py_error + row" where
  "transform_division_state record = row_get_all division_state_columns record"

definition transform_table_state :: "row \<Rightarrow> py_error + row" where
  "transform_table_state record = row_get_all table_state_columns record"

fun transform_all :: "(row \<Rightarrow> py_error + row) \<Rightarrow> row list \<Rightarrow> py_error + row list" where
  "transform_all transform_fn [] = Inr []"
| "transform_all transform_fn (record # batch) =
     (case transform_fn record of
        Inl e \<Rightarrow> Inl e
      | Inr d \<Rightarrow> (case transform_all transform_fn batch of
                   Inl e \<Rightarrow> Inl e
                 | Inr ds \<Rightarrow> Inr (d # ds)))"

text \<open>
  \<open>_mark_batch_synced\<close>: the primary-key column by table, the ids read from the batch
  (\<open>record[pk_col]\<close> raises when the fetched rows lack that column), then one
  \<open>UPDATE ... SET synced_to_cloud = 1 WHERE pk IN (ids)\<close> and the commit.
\<close>

definition pk_col_of :: "string \<Rightarrow> string option" where
  "pk_col_of table_name =
     (if table_name = ''division_states'' then Some ''division_state_id''
      else if table_name = ''table_states'' then Some ''table_state_id''
      else None)"

fun batch_ids :: "string \<Rightarrow> row list \<Rightarrow> py_error + val list" where
  "batch_ids pk_col [] = Inr []"
| "batch_ids pk_col (record # batch) =
     (case row_get record pk_col of
        Inl e \<Rightarrow> Inl e
      | Inr v \<Rightarrow> (case batch_ids pk_col batch of
                   Inl e \<Rightarrow> Inl e
                 | Inr ids \<Rightarrow> Inr (v # ids)))"

definition update_synced :: "string \<Rightarrow> val list \<Rightarrow> row list \<Rightarrow> row list" where
  "update_synced pk_col ids rows =
     map (\<lambda>r. if sql_in (col r pk_col) ids then set_col r ''synced_to_cloud'' (VInt 1) else r) rows"

definition mark_batch_synced :: "sync_manager \<Rightarrow> string \<Rightarrow> row list \<Rightarrow> py_error + sync_manager" where
  "mark_batch_synced self table_name batch =
     (case pk_col_of table_name of
        None \<Rightarrow> Inr self
      | Some pk_col \<Rightarrow>
          (case batch_ids pk_col batch of
             Inl e \<Rightarrow> Inl e
           | Inr ids \<Rightarrow>
               Inr (self\<lparr> local_db := (local_db self)
                      (table_name := update_synced pk_col ids (local_db self table_name)) \<rparr>)))"

text \<open>
  The slices \<open>records[i:i + n]\<close> for \<open>i\<close> in \<open>range(0, len(records), n)\<close>.
\<close>

function batches :: "nat \<Rightarrow> 'a list \<Rightarrow> 'a list list" where
  "batches n records =
     (if n = 0 \<or> records = [] then []
      else take n records # batches n (drop n records))"
  by pat_completeness auto
termination
  by (relation "measure (\<lambda>(n, records). length records)") auto

declare batches.simps [simp del]

text \<open>
  The body of the \<open>for\<close> loop of \<open>_upload_in_batches\<close> for batch number \<open>k\<close>.  The cloud is
  outside the program: \<open>accepts table_name k\<close> tells whether
  \<open>insert(batch_dicts).execute()\<close> returns for that batch or raises.  The transform runs
  before the \<open>try\<close>, so its exception leaves the method; the insert and the marking run
  inside it, so theirs are counted and the loop goes on.
\<close>

definition upload_batch ::
  "(string \<Rightarrow> nat \<Rightarrow> bool) \<Rightarrow> string \<Rightarrow> (row \<Rightarrow> py_error + row) \<Rightarrow> string option
     \<Rightarrow> nat \<Rightarrow> row list \<Rightarrow> sync_manager \<times> nat \<Rightarrow> py_error + sync_manager \<times> nat" where
  "upload_batch accepts table_name transform_fn mark_synced_table k batch st =
     (case st of (self, total_uploaded) \<Rightarrow>
      (case transform_all transform_fn batch of
         Inl e \<Rightarrow> Inl e
       | Inr batch_dicts \<Rightarrow>
           if accepts table_name k
           then
             (let inserted = self\<lparr> supabase := supabase self @ [(table_name, batch_dicts)] \<rparr> in
              case (case mark_synced_table of
                      None \<Rightarrow> Inr inserted
                    | Some t \<Rightarrow> if t = [] then Inr inserted else mark_batch_synced inserted t batch) of
                Inl e \<Rightarrow> Inr (inserted\<lparr> errors := errors inserted + 1 \<rparr>, total_uploaded)
              | Inr marked \<Rightarrow> Inr (marked, total_uploaded + length batch))
           else Inr (self\<lparr> errors := errors self + 1 \<rparr>, total_uploaded)))"

fun upload_loop ::
  "(string \<Rightarrow> nat \<Rightarrow> bool) \<Rightarrow> string \<Rightarrow> (row \<Rightarrow> py_error + row) \<Rightarrow> string option
     \<Rightarrow> nat \<Rightarrow> row list list \<Rightarrow> sync_manager \<times> nat \<Rightarrow> py_error + sync_manager \<times> nat" where
  "upload_loop accepts table_name transform_fn mark_synced_table k [] st = Inr st"
| "upload_loop accepts table_name transform_fn mark_synced_table k (batch # later) st =
     (case upload_batch accepts table_name transform_fn mark_synced_table k batch st of
        Inl e \<Rightarrow> Inl e
      | Inr st' \<Rightarrow> upload_loop accepts table_name transform_fn mark_synced_table (Suc k) later st')"

definition upload_in_batches ::
  "(string \<Rightarrow> nat \<Rightarrow> bool) \<Rightarrow> sync_manager \<Rightarrow> row list \<Rightarrow> string
     \<Rightarrow> (row \<Rightarrow> py_error + row) \<Rightarrow> string option \<Rightarrow> py_error + sync_manager \<times> nat" where
  "upload_in_batches accepts self records table_name transform_fn mark_synced_table =
     (if dry_run self then Inr (self, length records)
      else upload_loop accepts table_name transform_fn mark_synced_table 0
             (batches BATCH_SIZE records) (self, 0))"

text \<open>
  The four \<open>sync_*\<close> methods: query, return when nothing was fetched, otherwise upload in
  batches and record the count.  Only the two event tables pass \<open>mark_synced_table\<close>.
\<close>

definition sync_videos ::
  "(string \<Rightarrow> nat \<Rightarrow> bool) \<Rightarrow> sync_manager \<Rightarrow> datetime option \<Rightarrow> py_error + sync_manager" where
  "sync_videos accepts self cutoff_time =
     (let videos = map (select_columns video_columns) (videos_query cutoff_time (local_db self)) in
      if videos = [] then Inr self
      else (case upload_in_batches accepts self videos ''ASE_videos'' transform_video None of
              Inl e \<Rightarrow> Inl e
            | Inr (self', total_uploaded) \<Rightarrow> Inr (self'\<lparr> videos_synced := total_uploaded \<rparr>)))"

definition sync_sessions ::
  "(string \<Rightarrow> nat \<Rightarrow> bool) \<Rightarrow> sync_manager \<Rightarrow> datetime option \<Rightarrow> py_error + sync_manager" where
  "sync_sessions accepts self cutoff_time =
     (let sessions = map (select_columns session_columns)
                       (sessions_query cutoff_time (local_db self)) in
      if sessions = [] then Inr self
      else (case upload_in_batches accepts self sessions ''ASE_sessions'' transform_session None of
              Inl e \<Rightarrow> Inl e
            | Inr (self', total_uploaded) \<Rightarrow> Inr (self'\<lparr> sessions_synced := total_uploaded \<rparr>)))"

definition sync_division_states ::
  "(string \<Rightarrow> nat \<Rightarrow> bool) \<Rightarrow> sync_manager \<Rightarrow> datetime option \<Rightarrow> py_error + sync_manager" where
  "sync_division_states accepts self cutoff_time =
     (let states = map (select_columns division_state_columns)
                     (division_states_query cutoff_time (local_db self)) in
      if states = [] then Inr self
      else (case upload_in_batches accepts self states ''ASE_division_states''
                   transform_division_state (Some ''division_states'') of
              Inl e \<Rightarrow> Inl e
            | Inr (self', total_uploaded) \<Rightarrow>
                Inr (self'\<lparr> division_states_synced := total_uploaded \<rparr>)))"

definition sync_table_states ::
  "(string \<Rightarrow> nat \<Rightarrow> bool) \<Rightarrow> sync_manager \<Rightarrow> datetime option \<Rightarrow> py_error + sync_manager" where
  "sync_table_states accepts self cutoff_time =
     (let states = map (select_columns table_state_columns)
                     (table_states_query cutoff_time (local_db self)) in
      if states = [] then Inr self
      else (case upload_in_batches accepts self states ''ASE_table_states''
                   transform_table_state (Some ''table_states'') of
              Inl e \<Rightarrow> Inl e
            | Inr (self', total_uploaded) \<Rightarrow>
                Inr (self'\<lparr> table_states_synced := total_uploaded \<rparr>)))"

text \<open>
  \<open>cleanup_synced_data\<close>: \<open>now\<close> is the reading of \<open>datetime.now()\<close>, the cut-off is the
  \<open>datetime\<close> \<open>retention_hours\<close> before it, bound to both statements as text, and each
  \<open>DELETE\<close> keeps the rows its \<open>WHERE\<close> does not select.
\<close>

definition where_synced_before :: "datetime \<Rightarrow> row \<Rightarrow> bool" where
  "where_synced_before cutoff_time r =
     (sql_eq (col r ''synced_to_cloud'') (VInt 1)
      \<and> sql_lt (col r ''created_at'') (VText (adapt_datetime cutoff_time)))"

definition delete_where :: "(row \<Rightarrow> bool) \<Rightarrow> row list \<Rightarrow> row list" where
  "delete_where cond rows = filter (\<lambda>r. \<not> cond r) rows"

definition cleanup_synced_data ::
  "(datetime \<Rightarrow> int \<Rightarrow> datetime) \<Rightarrow> sync_manager \<Rightarrow> int \<Rightarrow> datetime \<Rightarrow> sync_manager" where
  "cleanup_synced_data minus_hours self retention_hours now =
     (if dry_run self then self
      else
        let cutoff_time = minus_hours now retention_hours;
            db1 = (local_db self)(''division_states'' :=
                     delete_where (where_synced_before cutoff_time) (local_db self ''division_states''));
            db2 = db1(''table_states'' :=
                     delete_where (where_synced_before cutoff_time) (db1 ''table_states''))
        in self\<lparr> local_db := db2 \<rparr>)"

text \<open>\<open>log_sync_status\<close>: one audit row appended to \<open>sync_status\<close>.\<close>

function str_nat :: "nat \<Rightarrow> string" where
  "str_nat n = (if n < 10 then [digit_char_of n] else str_nat (n div 10) @ [digit_char_of n])"
  by pat_completeness auto
termination
  by (relation "measure id") auto

definition log_sync_status :: "sync_manager \<Rightarrow> string \<Rightarrow> datetime \<Rightarrow> sync_manager" where
  "log_sync_status self sync_type now =
     (if dry_run self then self
      else
        let total_synced = division_states_synced self + table_states_synced self
                           + sessions_synced self + videos_synced self;
            status = (if errors self = 0 then ''success'' else ''partial'');
            error_msg = (if errors self > 0 then VText (str_nat (errors self) @ '' batch errors'')
                         else VNull);
            entry = [(''location_id'', location_id self), (''sync_type'', VText sync_type),
                     (''last_sync_time'', VText (adapt_datetime now)),
                     (''records_synced'', VInt (int total_synced)),
                     (''status'', VText status), (''error_message'', error_msg)]
        in self\<lparr> local_db := (local_db self)
                 (''sync_status'' := local_db self ''sync_status'' @ [entry]) \<rparr>)"

text \<open>
  The two modes.  \<open>now\<close> is the clock when the run starts, \<open>now_cleanup\<close> and \<open>now_log\<close>
  the later readings inside \<open>cleanup_synced_data\<close> and \<open>log_sync_status\<close>.  The hourly
  cut-off is the \<open>datetime\<close> two hours before \<open>now\<close>, passed to the four queries.
\<close>

definition hourly_cutoff :: "(datetime \<Rightarrow> int \<Rightarrow> datetime) \<Rightarrow> datetime \<Rightarrow> datetime" where
  "hourly_cutoff minus_hours now = minus_hours now 2"

definition sync_hourly ::
  "(datetime \<Rightarrow> int \<Rightarrow> datetime) \<Rightarrow> (string \<Rightarrow> nat \<Rightarrow> bool) \<Rightarrow> sync_manager
     \<Rightarrow> datetime \<Rightarrow> datetime \<Rightarrow> datetime \<Rightarrow> py_error + sync_manager" where
  "sync_hourly minus_hours accepts self now now_cleanup now_log =
     (let cutoff_time = Some (hourly_cutoff minus_hours now) in
      case sync_videos accepts self cutoff_time of Inl e \<Rightarrow> Inl e | Inr s1 \<Rightarrow>
      case sync_sessions accepts s1 cutoff_time of Inl e \<Rightarrow> Inl e | Inr s2 \<Rightarrow>
      case sync_division_states accepts s2 cutoff_time of Inl e \<Rightarrow> Inl e | Inr s3 \<Rightarrow>
      case sync_table_states accepts s3 cutoff_time of Inl e \<Rightarrow> Inl e | Inr s4 \<Rightarrow>
      Inr (log_sync_status (cleanup_synced_data minus_hours s4 24 now_cleanup) ''hourly'' now_log))"

definition sync_full ::
  "(string \<Rightarrow> nat \<Rightarrow> bool) \<Rightarrow> sync_manager \<Rightarrow> datetime \<Rightarrow> py_error + sync_manager" where
  "sync_full accepts self now_log =
     (case sync_videos accepts self None of Inl e \<Rightarrow> Inl e | Inr s1 \<Rightarrow>
      case sync_sessions accepts s1 None of Inl e \<Rightarrow> Inl e | Inr s2 \<Rightarrow>
      case sync_division_states accepts s2 None of Inl e \<Rightarrow> Inl e | Inr s3 \<Rightarrow>
      case sync_table_states accepts s3 None of Inl e \<Rightarrow> Inl e | Inr s4 \<Rightarrow>
      Inr (log_sync_status s4 ''full'' now_log))"



section \<open>Event buffer (batch\_db\_writer.py)\<close>

text \<open>
  The SQLite connection as the writer uses it: the transactions committed so far, each
  the list of its inserted rows with their table, and the rows inserted in the open
  transaction and not yet committed.  The store is outside the program: for each flush
  that reaches it, \<open>db_outcome\<close> tells whether \<open>executemany\<close> and \<open>commit\<close> return, or
  \<open>executemany\<close> raises after so many rows, or \<open>commit\<close> raises.  Neither method has a
  \<open>try\<close> or a rollback, so rows inserted before an exception stay in the open transaction.
\<close>

datatype db_outcome = Succeeds | ExecutemanyRaises nat | CommitRaises

record connection =
  committed_txns :: "(string \<times> val list) list list"
  pending :: "(string \<times> val list) list"

text \<open>The fields of \<open>BatchDatabaseWriter\<close>.  A buffered row is the tuple of bound values.\<close>

record batch_writer =
  batch_size :: int
  division_states_buffer :: "val list list"
  table_states_buffer :: "val list list"
  total_division_inserts :: nat
  total_table_inserts :: nat
  total_commits :: nat
  conn :: connection

definition batch_writer_init :: "connection \<Rightarrow> int \<Rightarrow> batch_writer" where
  "batch_writer_init db n =
     \<lparr> batch_size = n, division_states_buffer = [], table_states_buffer = [],
       total_division_inserts = 0, total_table_inserts = 0, total_commits = 0,
       conn = db \<rparr>"

text \<open>
  The two flush methods.  The result pairs the writer after the call with the exception
  that left the method, if any; the statistics and \<open>clear()\<close> come after \<open>commit()\<close> and
  are skipped by an exception.
\<close>

definition flush_division_states ::
  "batch_writer \<Rightarrow> db_outcome \<Rightarrow> batch_writer \<times> py_error option" where
  "flush_division_states self store =
     (if division_states_buffer self = [] then (self, None)
      else
        let rows = map (Pair ''division_states'') (division_states_buffer self) in
        case store of
          ExecutemanyRaises k \<Rightarrow>
            (self\<lparr> conn := (conn self)\<lparr> pending := pending (conn self)
                                             @ take (min k (length rows - 1)) rows \<rparr> \<rparr>,
             Some OperationalError)
        | CommitRaises \<Rightarrow>
            (self\<lparr> conn := (conn self)\<lparr> pending := pending (conn self) @ rows \<rparr> \<rparr>,
             Some OperationalError)
        | Succeeds \<Rightarrow>
            (self\<lparr> conn := \<lparr> committed_txns = committed_txns (conn self)
                                                 @ [pending (conn self) @ rows],
                              pending = [] \<rparr>,
                   total_division_inserts :=
                     total_division_inserts self + length (division_states_buffer self),
                   total_commits := total_commits self + 1,
                   division_states_buffer := [] \<rparr>,
             None))"

definition flush_table_states ::
  "batch_writer \<Rightarrow> db_outcome \<Rightarrow> batch_writer \<times> py_error option" where
  "flush_table_states self store =
     (if table_states_buffer self = [] then (self, None)
      else
        let rows = map (Pair ''table_states'') (table_states_buffer self) in
        case store of
          ExecutemanyRaises k \<Rightarrow>
            (self\<lparr> conn := (conn self)\<lparr> pending := pending (conn self)
                                             @ take (min k (length rows - 1)) rows \<rparr> \<rparr>,
             Some OperationalError)
        | CommitRaises \<Rightarrow>
            (self\<lparr> conn := (conn self)\<lparr> pending := pending (conn self) @ rows \<rparr> \<rparr>,
             Some OperationalError)
        | Succeeds \<Rightarrow>
            (self\<lparr> conn := \<lparr> committed_txns = committed_txns (conn self)
                                                 @ [pending (conn self) @ rows],
                              pending = [] \<rparr>,
                   total_table_inserts :=
                     total_table_inserts self + length (table_states_buffer self),
                   total_commits := total_commits self + 1,
                   table_states_buffer := [] \<rparr>,
             None))"

text \<open>\<open>flush_all\<close>: the table flush runs only when the division flush returned.\<close>

definition flush_all ::
  "batch_writer \<Rightarrow> db_outcome \<Rightarrow> db_outcome \<Rightarrow> batch_writer \<times> py_error option" where
  "flush_all self store_division store_table =
     (case flush_division_states self store_division of
        (flushed, Some e) \<Rightarrow> (flushed, Some e)
      | (flushed, None) \<Rightarrow> flush_table_states flushed store_table)"

text \<open>
  The arguments of the two producer calls.  \<open>timestamp_recorded\<close> arrives as text or as a
  \<open>datetime\<close>, which is replaced by its \<open>isoformat()\<close> text (carried by \<open>Datetime\<close>).
\<close>

datatype timestamp_arg = Text string | Datetime string

fun timestamp_text :: "timestamp_arg \<Rightarrow> string" where
  "timestamp_text (Text s) = s"
| "timestamp_text (Datetime isoformat) = isoformat"

record division_state_args =
  d_session_id :: string
  d_camera_id :: string
  d_location_id :: string
  d_frame_number :: int
  d_timestamp_video :: real
  d_timestamp_recorded :: timestamp_arg
  d_state :: string
  d_walking_waiters :: int
  d_service_waiters :: int
  d_screenshot_path :: "string option"

record table_state_args =
  t_session_id :: string
  t_camera_id :: string
  t_location_id :: string
  t_frame_number :: int
  t_timestamp_video :: real
  t_timestamp_recorded :: timestamp_arg
  t_table_id :: string
  t_state :: string
  t_customers_count :: int
  t_waiters_count :: int
  t_screenshot_path :: "string option"

definition text_or_null :: "string option \<Rightarrow> val" where
  "text_or_null p = (case p of None \<Rightarrow> VNull | Some s \<Rightarrow> VText s)"

definition division_state_tuple :: "division_state_args \<Rightarrow> val list" where
  "division_state_tuple a =
     (let total_staff = d_walking_waiters a + d_service_waiters a in
      [VText (d_session_id a), VText (d_camera_id a), VText (d_location_id a),
       VInt (d_frame_number a), VReal (d_timestamp_video a),
       VText (timestamp_text (d_timestamp_recorded a)), VText (d_state a),
       VInt (d_walking_waiters a), VInt (d_service_waiters a), VInt total_staff,
       text_or_null (d_screenshot_path a)])"

definition table_state_tuple :: "table_state_args \<Rightarrow> val list" where
  "table_state_tuple a =
     [VText (t_session_id a), VText (t_camera_id a), VText (t_location_id a),
      VInt (t_frame_number a), VReal (t_timestamp_video a),
      VText (timestamp_text (t_timestamp_recorded a)), VText (t_table_id a), VText (t_state a),
      VInt (t_customers_count a), VInt (t_waiters_count a),
      text_or_null (t_screenshot_path a)]"

definition add_division_state ::
  "batch_writer \<Rightarrow> division_state_args \<Rightarrow> db_outcome \<Rightarrow> batch_writer \<times> py_error option" where
  "add_division_state self a store =
     (let appended = self\<lparr> division_states_buffer :=
                             division_states_buffer self @ [division_state_tuple a] \<rparr> in
      if int (length (division_states_buffer appended)) \<ge> batch_size appended
      then flush_division_states appended store
      else (appended, None))"

definition add_table_state ::
  "batch_writer \<Rightarrow> table_state_args \<Rightarrow> db_outcome \<Rightarrow> batch_writer \<times> py_error option" where
  "add_table_state self a store =
     (let appended = self\<lparr> table_states_buffer :=
                             table_states_buffer self @ [table_state_tuple a] \<rparr> in
      if int (length (table_states_buffer appended)) \<ge> batch_size appended
      then flush_table_states appended store
      else (appended, None))"

text \<open>
  A producer is any sequence of calls on one writer, each with what the store does if the
  call flushes.  \<open>run_calls\<close> performs them in order on the one writer object; a producer
  that stops at an exception performs a prefix.  \<open>enqueued_division\<close> and
  \<open>enqueued_table\<close> are the rows the calls handed over, \<open>committed\<close> the rows of a table in
  the order they were committed, and \<open>store_succeeds\<close> says that the store fails no flush
  of a call.
\<close>

datatype writer_call =
    AddDivisionState division_state_args db_outcome
  | AddTableState table_state_args db_outcome
  | FlushAll db_outcome db_outcome

fun do_call :: "batch_writer \<Rightarrow> writer_call \<Rightarrow> batch_writer \<times> py_error option" where
  "do_call self (AddDivisionState a store) = add_division_state self a store"
| "do_call self (AddTableState a store) = add_table_state self a store"
| "do_call self (FlushAll store_division store_table) = flush_all self store_division store_table"

definition run_calls :: "batch_writer \<Rightarrow> writer_call list \<Rightarrow> batch_writer" where
  "run_calls self calls = foldl (\<lambda>w c. fst (do_call w c)) self calls"

fun store_succeeds :: "writer_call \<Rightarrow> bool" where
  "store_succeeds (AddDivisionState a store) = (store = Succeeds)"
| "store_succeeds (AddTableState a store) = (store = Succeeds)"
| "store_succeeds (FlushAll store_division store_table) =
     (store_division = Succeeds \<and> store_table = Succeeds)"

fun enqueued_division :: "writer_call list \<Rightarrow> val list list" where
  "enqueued_division [] = []"
| "enqueued_division (AddDivisionState a store # calls) =
     division_state_tuple a # enqueued_division calls"
| "enqueued_division (c # calls) = enqueued_division calls"

fun enqueued_table :: "writer_call list \<Rightarrow> val list list" where
  "enqueued_table [] = []"
| "enqueued_table (AddTableState a store # calls) = table_state_tuple a # enqueued_table calls"
| "enqueued_table (c # calls) = enqueued_table calls"

definition rows_of :: "string \<Rightarrow> (string \<times> val list) list \<Rightarrow> val list list" where
  "rows_of t txn = map snd (filter (\<lambda>entry. fst entry = t) txn)"

definition committed :: "string \<Rightarrow> (string \<times> val list) list list \<Rightarrow> val list list" where
  "committed t txns = concat (map (rows_of t) txns)"

definition transactions_bounded :: "int \<Rightarrow> (string \<times> val list) list list \<Rightarrow> bool" where
  "transactions_bounded n txns =
     list_all (\<lambda>txn. txn \<noteq> [] \<and> int (length txn) \<le> n) txns"

text \<open>Between two producer calls each buffer holds fewer rows than the batch size.\<close>

definition buffers_below_batch_size :: "batch_writer \<Rightarrow> bool" where
  "buffers_below_batch_size w =
     (int (length (division_states_buffer w)) < batch_size w
      \<and> int (length (table_states_buffer w)) < batch_size w)"


section \<open>Segment index (process\_videos\_orchestrator.py)\<close>

text \<open>
  A path is the list of its parts (\<open>Path.parts\<close>), the file name last.  The three regular
  expressions are written out as list functions on ASCII text.
\<close>

type_synonym path = "string list"

definition path_name :: "path \<Rightarrow> string" where
  "path_name p = (if p = [] then [] else last p)"

definition digit_char :: "char \<Rightarrow> bool" where
  "digit_char c = (c \<in> set ''0123456789'')"

text \<open>\<open>re.match(r'^(camera_\d+)', video_filename)\<close>: the prefix and its longest run of digits.\<close>

definition extract_camera_id :: "string \<Rightarrow> string option" where
  "extract_camera_id video_filename =
     (let digits = takeWhile digit_char (drop 7 video_filename) in
      if take 7 video_filename = ''camera_'' \<and> digits \<noteq> []
      then Some (''camera_'' @ digits) else None)"

text \<open>
  \<open>re.match(r'^\d{8}$', part)\<close>: eight digits, where \<open>$\<close> also matches before one final
  newline.
\<close>

definition is_date_part :: "string \<Rightarrow> bool" where
  "is_date_part part =
     (list_all digit_char (take 8 part)
      \<and> (length part = 8 \<or> (length part = 9 \<and> drop 8 part = [CHR 0x0A])))"

text \<open>\<open>re.search(r'_(\d{8})_', name)\<close>: the leftmost match, its group.\<close>

fun search_date :: "string \<Rightarrow> string option" where
  "search_date [] = None"
| "search_date (c # cs) =
     (if c = CHR ''_'' \<and> length cs \<ge> 9 \<and> list_all digit_char (take 8 cs) \<and> cs ! 8 = CHR ''_''
      then Some (take 8 cs)
      else search_date cs)"

definition extract_date_from_path :: "path \<Rightarrow> string option" where
  "extract_date_from_path video_path =
     (case find is_date_part video_path of
        Some part \<Rightarrow> Some part
      | None \<Rightarrow> search_date (path_name video_path))"

text \<open>
  The filtering loop of \<open>discover_videos\<close> over the files \<open>rglob\<close> found: \<open>today\<close> is
  \<open>datetime.now().strftime("%Y%m%d")\<close>, \<open>processed_videos\<close> the file names already in the
  sessions table, \<open>camera_filter\<close> the optional allow-list.  The result pairs each added
  file with its camera, in the order of discovery; the later grouping and sorting by
  camera only rearrange these pairs.
\<close>

fun discover_videos ::
  "string \<Rightarrow> string list \<Rightarrow> string list option \<Rightarrow> path list \<Rightarrow> (string \<times> path) list" where
  "discover_videos today processed_videos camera_filter [] = []"
| "discover_videos today processed_videos camera_filter (video_file # rest) =
     (case extract_camera_id (path_name video_file) of
        None \<Rightarrow> discover_videos today processed_videos camera_filter rest
      | Some camera_id \<Rightarrow>
          if (case camera_filter of
                None \<Rightarrow> False
              | Some allowed \<Rightarrow> allowed \<noteq> [] \<and> camera_id \<notin> set allowed)
          then discover_videos today processed_videos camera_filter rest
          else
            let video_date = extract_date_from_path video_file in
            if video_date = Some today
            then discover_videos today processed_videos camera_filter rest
            else if video_date = None \<or> video_date = Some []
            then discover_videos today processed_videos camera_filter rest
            else if path_name video_file \<in> set processed_videos
            then discover_videos today processed_videos camera_filter rest
            else (camera_id, video_file) # discover_videos today processed_videos camera_filter rest)"

text \<open>
  The specification's filter (F1), written from its words: the date of the enclosing
  directory, read as the number \<open>YYYYMMDD\<close>, is strictly earlier than today's.
\<close>

definition digit_value :: "char \<Rightarrow> nat" where
  "digit_value c = length (takeWhile (\<lambda>d. d \<noteq> c) ''0123456789'')"

definition date_number :: "string \<Rightarrow> nat" where
  "date_number d = foldl (\<lambda>n c. 10 * n + digit_value c) 0 d"

definition strictly_earlier :: "string \<Rightarrow> string \<Rightarrow> bool" where
  "strictly_earlier video_date today = (date_number video_date < date_number today)"


section \<open>Service start (surveillance\_service.py)\<close>

text \<open>
  The operating system as \<open>start\<close> sees it: the content of the PID file if it exists, the
  result of \<open>int(text.strip())\<close> (\<open>None\<close> for \<open>ValueError\<close>), the outcome of
  \<open>os.kill(pid, 0)\<close>, and the process's own PID as text.  The file operations performed
  are recorded in order.
\<close>

datatype kill_result = KillReturned | KillOSError | KillOtherError

datatype file_op = Unlink | Write string

datatype start_outcome = AlreadyRunning | Launched | Raised

record start_result =
  outcome :: start_outcome
  pid_file :: "string option"
  file_ops :: "file_op list"
  running :: bool

definition start ::
  "(string \<Rightarrow> int option) \<Rightarrow> (int \<Rightarrow> kill_result) \<Rightarrow> string \<Rightarrow> string option \<Rightarrow> start_result" where
  "start parse_int os_kill own_pid pid_file_content =
     (let launch = (\<lambda>ops. \<lparr> outcome = Launched, pid_file = Some own_pid,
                             file_ops = ops @ [Write own_pid], running = True \<rparr>) in
      case pid_file_content of
        None \<Rightarrow> launch []
      | Some text \<Rightarrow>
          (case parse_int text of
             None \<Rightarrow> \<lparr> outcome = Raised, pid_file = Some text, file_ops = [], running = False \<rparr>
           | Some old_pid \<Rightarrow>
               (case os_kill old_pid of
                  KillReturned \<Rightarrow>
                    \<lparr> outcome = AlreadyRunning, pid_file = Some text, file_ops = [],
                      running = False \<rparr>
                | KillOSError \<Rightarrow> launch [Unlink]
                | KillOtherError \<Rightarrow>
                    \<lparr> outcome = Raised, pid_file = Some text, file_ops = [],
                      running = False \<rparr>)))"


section \<open>Sample inputs\<close>

text \<open>The default schedule of \<open>load_system_config\<close> and a monitor with the default limits.\<close>

definition morning_window :: capture_window where
  "morning_window = \<lparr> start_hour = 11, start_minute = 30, end_hour = 14, end_minute = 0 \<rparr>"

definition evening_window :: capture_window where
  "evening_window = \<lparr> start_hour = 17, start_minute = 30, end_hour = 22, end_minute = 0 \<rparr>"

definition default_monitor :: gpu_monitor where
  "default_monitor = \<lparr> min_workers = 1, max_workers = 8, last_scale_time = 0 \<rparr>"

text \<open>The sample \<open>"65, 50, 10240, 12288"\<close> of nvidia-smi: exactly 2048 MB free.\<close>

definition two_gb_free :: gpu_metrics where
  "two_gb_free = \<lparr> temperature = 65, gpu_utilization = 50, memory_free_gb = 2,
                    memory_total_gb = 12, memory_used_gb = 10 \<rparr>"

definition cool_idle :: gpu_metrics where
  "cool_idle = \<lparr> temperature = 65, gpu_utilization = 50, memory_free_gb = 3,
                  memory_total_gb = 12, memory_used_gb = 9 \<rparr>"

definition camera_35 :: ffmpeg_capture where
  "camera_35 = \<lparr> rtsp_url = ''rtsp://admin:pw@192.168.1.35:554/stream'', segment_duration = 60,
                  rtsp_transport = ''tcp'' \<rparr>"

definition no_jobs_yet :: queue_stats where
  "no_jobs_yet = \<lparr> jobs_completed = 0, jobs_failed = 0, total_processing_time = 0 \<rparr>"



definition nine_on_15th :: datetime where
  "nine_on_15th = \<lparr> year = 2025, month = 11, day = 15, hour = 9, minute = 0, second = 0,
                    microsecond = 0 \<rparr>"






















text \<open>A producer on a writer with batch size 2: three division events, then \<open>flush_all\<close>.\<close>

definition red_at :: "int \<Rightarrow> division_state_args" where
  "red_at frame =
     \<lparr> d_session_id = ''20251022_195212_camera_35'', d_camera_id = ''camera_35'',
       d_location_id = ''mianyang'', d_frame_number = frame, d_timestamp_video = 0,
       d_timestamp_recorded = Datetime ''2025-10-22T19:52:12'', d_state = ''RED'',
       d_walking_waiters = 2, d_service_waiters = 1, d_screenshot_path = None \<rparr>"

definition three_events :: "writer_call list" where
  "three_events = [AddDivisionState (red_at 1) Succeeds, AddDivisionState (red_at 2) Succeeds,
                   AddDivisionState (red_at 3) Succeeds, FlushAll Succeeds Succeeds]"

text \<open>
  The same three events when the store is locked at the first flush, so that
  \<open>executemany\<close> raises before any row, and is free again at the next.
\<close>

definition locked_once :: "writer_call list" where
  "locked_once = [AddDivisionState (red_at 1) Succeeds,
                  AddDivisionState (red_at 2) (ExecutemanyRaises 0),
                  AddDivisionState (red_at 3) Succeeds]"

definition empty_connection :: connection where
  "empty_connection = \<lparr> committed_txns = [], pending = [] \<rparr>"

text \<open>A table event of the same session.\<close>

definition busy_at :: "int \<Rightarrow> table_state_args" where
  "busy_at frame =
     \<lparr> t_session_id = ''20251022_195212_camera_35'', t_camera_id = ''camera_35'',
       t_location_id = ''mianyang'', t_frame_number = frame, t_timestamp_video = 0,
       t_timestamp_recorded = Datetime ''2025-10-22T19:52:12'', t_table_id = ''T1'',
       t_state = ''BUSY'', t_customers_count = 4, t_waiters_count = 1,
       t_screenshot_path = None \<rparr>"

text \<open>A writer with batch size 2 that holds one row in each buffer.\<close>

definition one_each :: batch_writer where
  "one_each = fst (add_table_state
                     (fst (add_division_state (batch_writer_init empty_connection 2)
                             (red_at 1) Succeeds))
                     (busy_at 1) Succeeds)"


text \<open>
  A segment in a date directory after today, 17 November 2025, and one in today's; and a
  PID file left behind by process 4242.
\<close>

definition future_segment :: path where
  "future_segment = [''/'', ''videos'', ''20991231'', ''camera_35'',
                     ''camera_35_20991231_120000.mp4'']"

definition todays_segment :: path where
  "todays_segment = [''/'', ''videos'', ''20251117'', ''camera_35'',
                     ''camera_35_20251117_120000.mp4'']"

definition parse_4242 :: "string \<Rightarrow> int option" where
  "parse_4242 text = (if text = ''4242'' then Some 4242 else None)"

definition no_such_process :: "int \<Rightarrow> kill_result" where
  "no_such_process pid = KillOSError"

definition process_alive :: "int \<Rightarrow> kill_result" where
  "process_alive pid = KillReturned"


section \<open>Window membership\<close>

lemma is_in_capture_window_fst:
  "fst (is_in_capture_window ws h m) =
     (\<exists>w \<in> set ws. half_open_member (start_total_minutes w) (end_total_minutes w) (h * 60 + m))"
  by (induction ws) (auto simp: half_open_member_def Let_def)

lemma hour_interval_as_minutes:
  fixes s e h m :: int
  assumes "0 \<le> m" "m < 60"
  shows "(s \<le> h \<and> h \<le> e) = (s * 60 \<le> h * 60 + m \<and> h * 60 + m < (e + 1) * 60)"
  using assms by auto

text \<open>
  Claim C5, as the code has it.  A capture window is active exactly on the half-open
  interval of minutes from its start to its end, and the service is inside a capture
  window exactly when some configured window is active.  The processing window reads
  hours only: with start hour before end hour it is active from \<open>start:00\<close> up to, not
  including, \<open>(end + 1):00\<close>, so the whole end hour belongs to it; otherwise it is the
  overnight window, active when the hour is at least the start hour or below the end hour.
\<close>

theorem window_membership:
  "is_in_capture_window [w] h m =
     (if half_open_member (start_total_minutes w) (end_total_minutes w) (h * 60 + m)
      then (True, Some w) else (False, None))
   \<and> fst (is_in_capture_window ws h m) =
       (\<exists>w \<in> set ws. half_open_member (start_total_minutes w) (end_total_minutes w) (h * 60 + m))
   \<and> (s < e \<and> 0 \<le> m \<and> m < 60 \<longrightarrow>
        is_in_time_window s e h = half_open_member (s * 60) ((e + 1) * 60) (h * 60 + m))
   \<and> (\<not> s < e \<longrightarrow> is_in_time_window s e h = (s \<le> h \<or> h < e))"
  using hour_interval_as_minutes[of m s h e]
  by (simp add: is_in_capture_window_fst is_in_time_window_def half_open_member_def Let_def)

theorem window_membership_witness:
  "is_in_capture_window [morning_window] 13 59 = (True, Some morning_window)
   \<and> is_in_capture_window [morning_window] 14 0 = (False, None)
   \<and> fst (is_in_capture_window [morning_window, evening_window] 17 30)
   \<and> (0::int) < 23 \<and> (0::int) \<le> 30 \<and> (30::int) < 60
   \<and> is_in_time_window 0 23 23 = half_open_member (0 * 60) ((23 + 1) * 60) (23 * 60 + 30)
   \<and> \<not> (23::int) < 6 \<and> is_in_time_window 23 6 2"
  using window_membership[of morning_window 13 59 "[morning_window, evening_window]" 0 23]
    window_membership[of morning_window 14 0 "[morning_window, evening_window]" 0 23]
    window_membership[of morning_window 17 30 "[morning_window, evening_window]" 0 23]
    window_membership[of morning_window 23 30 "[morning_window, evening_window]" 0 23]
    window_membership[of morning_window 2 0 "[morning_window, evening_window]" 23 6]
  by (simp add: half_open_member_def start_total_minutes_def end_total_minutes_def
        morning_window_def evening_window_def)

text \<open>
  Claim C5 as stated fails for the processing window: with the default window from hour 0
  to hour 23, the service is inside it at 23:30, which is not before the end 23:00.
\<close>

theorem processing_window_counterexample:
  "is_in_time_window 0 23 23 \<and> \<not> half_open_member (0 * 60) (23 * 60) (23 * 60 + 30)"
  by (simp add: is_in_time_window_def half_open_member_def)


section \<open>Scale-up decision\<close>

text \<open>
  Claim C6, as the code has it.  For a sample and a worker count, the monitor decides
  SCALE\_UP exactly when the temperature is below 70, the utilisation below 70, the free
  memory strictly above 2 GB, at least 60 s have passed since the last scaling action, and
  the worker count is below the maximum.
\<close>

theorem scale_up_decision:
  "(gpu_monitoring_decision monitor (Some m) workers now = SCALE_UP) =
     (temperature m < 70 \<and> gpu_utilization m < 70 \<and> memory_free_gb m > 2
      \<and> now - last_scale_time monitor \<ge> 60 \<and> workers < max_workers monitor)"
  by (auto simp: gpu_monitoring_decision_def is_emergency_def should_scale_down_def
        should_scale_up_def TEMP_SCALE_UP_THRESHOLD_def TEMP_SCALE_DOWN_THRESHOLD_def
        TEMP_EMERGENCY_THRESHOLD_def GPU_UTIL_SCALE_UP_THRESHOLD_def
        GPU_UTIL_SCALE_DOWN_THRESHOLD_def MIN_MEMORY_FREE_GB_def SCALE_COOLDOWN_SECONDS_def)

theorem scale_up_decision_witness:
  "gpu_monitoring_decision default_monitor (Some cool_idle) 1 60 = SCALE_UP
   \<and> gpu_monitoring_decision default_monitor (Some cool_idle) 1 29 = HOLD"
  using scale_up_decision[of default_monitor cool_idle 1 60]
  by (simp add: gpu_monitoring_decision_def is_emergency_def should_scale_down_def
        should_scale_up_def TEMP_SCALE_UP_THRESHOLD_def TEMP_SCALE_DOWN_THRESHOLD_def
        TEMP_EMERGENCY_THRESHOLD_def GPU_UTIL_SCALE_UP_THRESHOLD_def
        GPU_UTIL_SCALE_DOWN_THRESHOLD_def MIN_MEMORY_FREE_GB_def SCALE_COOLDOWN_SECONDS_def
        default_monitor_def cool_idle_def)

text \<open>
  Claim C6 as stated fails at exactly 2 GB free: every condition of the specification's
  row holds for the nvidia-smi sample with 2048 MB free, and the monitor holds.
\<close>

theorem scale_up_counterexample:
  "metrics_of_nvidia_smi [65, 50, 10240, 12288] = Some two_gb_free
   \<and> spec_scale_up default_monitor two_gb_free 1 100
   \<and> gpu_monitoring_decision default_monitor (Some two_gb_free) 1 100 = HOLD"
  by (simp add: spec_scale_up_def gpu_monitoring_decision_def is_emergency_def
        should_scale_down_def should_scale_up_def TEMP_SCALE_UP_THRESHOLD_def
        TEMP_SCALE_DOWN_THRESHOLD_def TEMP_EMERGENCY_THRESHOLD_def
        GPU_UTIL_SCALE_UP_THRESHOLD_def GPU_UTIL_SCALE_DOWN_THRESHOLD_def
        MIN_MEMORY_FREE_GB_def SCALE_COOLDOWN_SECONDS_def default_monitor_def two_gb_free_def)


section \<open>Exit code 2 in the dispatcher\<close>

text \<open>
  Claim C4 at the runner's duplicate exit: the runner leaves with code 2 for a segment
  that already has a session, and \<open>process_job\<close> counts that job among the failed ones and
  returns \<open>False\<close>, as for any non-zero code.
\<close>

theorem already_processed_counted_as_failure:
  "runner_exit_code True False = 2
   \<and> process_job no_jobs_yet (Returncode (runner_exit_code True False)) 1
     = (\<lparr> jobs_completed = 0, jobs_failed = 1, total_processing_time = 0 \<rparr>, False)
   \<and> process_job no_jobs_yet (Returncode 2) 1 = process_job no_jobs_yet (Returncode 1) 1"
  by (simp add: process_job_def runner_exit_code_def no_jobs_yet_def)


section \<open>Duration of a capture segment\<close>

text \<open>
  Claim C3 on a session of 90 s with 60 s segments: the second segment starts with 30 s
  remaining, and its command still carries \<open>-t 60\<close>; the minimum of segment length and
  remaining duration, 30, is computed by the loop and not passed on.
\<close>

theorem final_segment_not_capped:
  "map (option_value ''-t'') (capture_video camera_35 90 True [Took 60, Took 60])
     = [Some (Num 60), Some (Num 60)]
   \<and> min (real_of_int (segment_duration camera_35)) (90 - 60) = 30"
  by (simp add: capture_video_def capture_iteration_def start_ffmpeg_segment_def camera_35_def)


section \<open>Upload in batches\<close>












text \<open>
  The rows \<open>sync_division_states\<close> and \<open>sync_table_states\<close> fetch carry the selected columns
  only, and the primary key is not among them: reading the ids from such a batch raises.
\<close>

lemma fetched_rows_lack_primary_key:
  "rows \<noteq> [] \<Longrightarrow>
     batch_ids ''division_state_id'' (map (select_columns division_state_columns) rows)
       = Inl IndexError
     \<and> batch_ids ''table_state_id'' (map (select_columns table_state_columns) rows)
       = Inl IndexError"
  by (cases rows)
     (simp_all add: row_get_def select_columns_def division_state_columns_def
        table_state_columns_def)








section \<open>Date filter of the segment index\<close>

lemma discover_videos_skips_today:
  "extract_date_from_path video_file = Some today \<Longrightarrow>
     (camera_id, video_file) \<notin> set (discover_videos today processed_videos camera_filter files)"
  by (induction files) (auto simp: Let_def split: option.splits)

text \<open>
  Claim C8 on a directory dated after today.  With today 17 November 2025, the index skips
  the segment in today's directory and emits the segment in the directory \<open>20991231\<close>,
  whose date is not strictly earlier than today: the loop compares the date with today
  for equality only.
\<close>

theorem future_dated_segment_is_emitted:
  "extract_date_from_path future_segment = Some ''20991231''
   \<and> \<not> strictly_earlier ''20991231'' ''20251117''
   \<and> discover_videos ''20251117'' [] None [todays_segment, future_segment]
       = [(''camera_35'', future_segment)]"
  by (simp add: extract_date_from_path_def is_date_part_def digit_char_def path_name_def
        extract_camera_id_def strictly_earlier_def date_number_def digit_value_def
        future_segment_def todays_segment_def)

section \<open>Stale PID file at start\<close>

text \<open>
  Claim C10.  When the PID file exists, its content parses to a PID and signalling that
  PID with signal 0 raises \<open>OSError\<close>, \<open>start\<close> unlinks the file, writes its own PID and
  launches.  \<open>start\<close> reports "already running" only when the file exists, parses, and the
  signal call returns, that is the recorded process is alive; then it leaves the file as
  it is and launches nothing.
\<close>

theorem start_replaces_stale_pid_file:
  "(pid_file_content = Some text \<and> parse_int text = Some old_pid
      \<and> os_kill old_pid = KillOSError \<longrightarrow>
        start parse_int os_kill own_pid pid_file_content
          = \<lparr> outcome = Launched, pid_file = Some own_pid,
              file_ops = [Unlink, Write own_pid], running = True \<rparr>)
   \<and> (outcome (start parse_int os_kill own_pid pid_file_content) = AlreadyRunning \<longrightarrow>
        (\<exists>text old_pid. pid_file_content = Some text \<and> parse_int text = Some old_pid
            \<and> os_kill old_pid = KillReturned))
   \<and> (pid_file_content = Some text \<and> parse_int text = Some old_pid
      \<and> os_kill old_pid = KillReturned \<longrightarrow>
        start parse_int os_kill own_pid pid_file_content
          = \<lparr> outcome = AlreadyRunning, pid_file = Some text, file_ops = [],
              running = False \<rparr>)"
  by (auto simp: start_def Let_def split: option.splits kill_result.splits)

theorem start_replaces_stale_pid_file_witness:
  "parse_4242 ''4242'' = Some 4242 \<and> no_such_process 4242 = KillOSError
   \<and> start parse_4242 no_such_process ''5151'' (Some ''4242'')
       = \<lparr> outcome = Launched, pid_file = Some ''5151'',
           file_ops = [Unlink, Write ''5151''], running = True \<rparr>
   \<and> process_alive 4242 = KillReturned
   \<and> outcome (start parse_4242 process_alive ''5151'' (Some ''4242'')) = AlreadyRunning
   \<and> start parse_4242 process_alive ''5151'' (Some ''4242'')
       = \<lparr> outcome = AlreadyRunning, pid_file = Some ''4242'', file_ops = [],
           running = False \<rparr>"
  using start_replaces_stale_pid_file[of "Some ''4242''" "''4242''" parse_4242 4242
          no_such_process "''5151''"]
    start_replaces_stale_pid_file[of "Some ''4242''" "''4242''" parse_4242 4242
          process_alive "''5151''"]
  by (simp add: parse_4242_def no_such_process_def process_alive_def)



section \<open>Text order of bound datetimes\<close>




lemma length_zero_padded [simp]: "length (zero_padded w n) = w"
  by (induction w arbitrary: n) auto








lemma zero_padded_2: "zero_padded 2 n = [digit_char_of (n div 10), digit_char_of n]"
proof -
  have "zero_padded (Suc (Suc 0)) n = [digit_char_of (n div 10), digit_char_of n]" by simp
  then show ?thesis by (simp only: numeral_2_eq_2)
qed

lemma zero_padded_4:
  "zero_padded 4 n = [digit_char_of (n div 1000), digit_char_of (n div 100),
                      digit_char_of (n div 10), digit_char_of n]"
proof -
  have w: "(4::nat) = Suc (Suc (Suc (Suc 0)))" by simp
  show ?thesis by (subst w) (simp add: div_mult2_eq[symmetric])
qed


lemma adapt_nine_on_15th: "adapt_datetime nine_on_15th = ''2025-11-15 09:00:00''"
  by (simp add: adapt_datetime_def nine_on_15th_def zero_padded_2 zero_padded_4 digit_char_of_def)







section \<open>Local pruning\<close>








section \<open>Selection of rows for upload\<close>






section \<open>Batched commits of the event buffer\<close>

lemma committed_append: "committed t (a @ b) = committed t a @ committed t b"
  by (simp add: committed_def)

lemma committed_single: "committed t [txn] = rows_of t txn"
  by (simp add: committed_def)

lemma committed_Nil: "committed t [] = []"
  by (simp add: committed_def)

lemma rows_of_append: "rows_of t (a @ b) = rows_of t a @ rows_of t b"
  by (simp add: rows_of_def)

lemma rows_of_Nil: "rows_of t [] = []"
  by (simp add: rows_of_def)

lemma rows_of_same_table: "rows_of t (map (Pair t) rows) = rows"
  by (induction rows) (simp_all add: rows_of_def)

lemma rows_of_other_table: "t \<noteq> u \<Longrightarrow> rows_of t (map (Pair u) rows) = []"
  by (induction rows) (simp_all add: rows_of_def)

lemma transactions_bounded_append:
  "transactions_bounded n (a @ b) = (transactions_bounded n a \<and> transactions_bounded n b)"
  by (simp add: transactions_bounded_def)

lemma enqueued_division_Cons:
  "enqueued_division (c # cs) = enqueued_division [c] @ enqueued_division cs"
  by (cases c) simp_all

lemma enqueued_table_Cons:
  "enqueued_table (c # cs) = enqueued_table [c] @ enqueued_table cs"
  by (cases c) simp_all

lemma run_calls_Cons: "run_calls w (c # cs) = run_calls (fst (do_call w c)) cs"
  by (simp add: run_calls_def)

lemma run_calls_Nil: "run_calls w [] = w"
  by (simp add: run_calls_def)

lemma subseq_behind: "subseq ys (zs @ ys)"
  by (simp add: list_emb_append2)

lemma subseq_step:
  assumes "subseq (b0 @ e1) (c1 @ b1)" and "subseq (b1 @ e2) (c2 @ b2)"
  shows "subseq (b0 @ e1 @ e2) (c1 @ c2 @ b2)"
proof -
  have "subseq (b0 @ e1 @ e2) (c1 @ b1 @ e2)"
    using list_emb_append_mono[OF assms(1), of e2 e2] by simp
  moreover have "subseq (c1 @ b1 @ e2) (c1 @ c2 @ b2)"
    using list_emb_append_mono[OF _ assms(2), of c1 c1] by simp
  ultimately show ?thesis
    by (rule subseq_order.order_trans)
qed

text \<open>Whatever the store does, a flush keeps every buffered row: committed or still buffered.\<close>

lemma flush_division_states_keeps:
  "\<exists>added. committed_txns (conn (fst (flush_division_states w store)))
              = committed_txns (conn w) @ added
     \<and> batch_size (fst (flush_division_states w store)) = batch_size w
     \<and> subseq (division_states_buffer w)
          (committed ''division_states'' added
             @ division_states_buffer (fst (flush_division_states w store)))
     \<and> subseq (table_states_buffer w)
          (committed ''table_states'' added
             @ table_states_buffer (fst (flush_division_states w store)))"
proof (cases "division_states_buffer w = [] \<or> store \<noteq> Succeeds")
  case True
  then show ?thesis
    by (intro exI[of _ "[]"])
       (auto simp: flush_division_states_def Let_def committed_Nil split: db_outcome.splits)
next
  case False
  then show ?thesis
    by (intro exI[of _ "[pending (conn w)
                         @ map (Pair ''division_states'') (division_states_buffer w)]"])
       (simp add: flush_division_states_def Let_def committed_single rows_of_append
          rows_of_same_table rows_of_other_table subseq_behind)
qed

lemma flush_table_states_keeps:
  "\<exists>added. committed_txns (conn (fst (flush_table_states w store)))
              = committed_txns (conn w) @ added
     \<and> batch_size (fst (flush_table_states w store)) = batch_size w
     \<and> subseq (division_states_buffer w)
          (committed ''division_states'' added
             @ division_states_buffer (fst (flush_table_states w store)))
     \<and> subseq (table_states_buffer w)
          (committed ''table_states'' added
             @ table_states_buffer (fst (flush_table_states w store)))"
proof (cases "table_states_buffer w = [] \<or> store \<noteq> Succeeds")
  case True
  then show ?thesis
    by (intro exI[of _ "[]"])
       (auto simp: flush_table_states_def Let_def committed_Nil split: db_outcome.splits)
next
  case False
  then show ?thesis
    by (intro exI[of _ "[pending (conn w)
                         @ map (Pair ''table_states'') (table_states_buffer w)]"])
       (simp add: flush_table_states_def Let_def committed_single rows_of_append
          rows_of_same_table rows_of_other_table subseq_behind)
qed

lemma fst_flush_all:
  "fst (flush_all w store_division store_table) =
     (if snd (flush_division_states w store_division) = None
      then fst (flush_table_states (fst (flush_division_states w store_division)) store_table)
      else fst (flush_division_states w store_division))"
  by (simp add: flush_all_def split: prod.splits option.splits)

lemma do_call_keeps:
  "\<exists>added. committed_txns (conn (fst (do_call w c))) = committed_txns (conn w) @ added
     \<and> batch_size (fst (do_call w c)) = batch_size w
     \<and> subseq (division_states_buffer w @ enqueued_division [c])
          (committed ''division_states'' added @ division_states_buffer (fst (do_call w c)))
     \<and> subseq (table_states_buffer w @ enqueued_table [c])
          (committed ''table_states'' added @ table_states_buffer (fst (do_call w c)))"
proof (cases c)
  case (AddDivisionState a store)
  define appended where
    "appended = w\<lparr> division_states_buffer := division_states_buffer w @ [division_state_tuple a] \<rparr>"
  show ?thesis
  proof (cases "int (length (division_states_buffer appended)) \<ge> batch_size appended")
    case True
    then have call: "do_call w c = flush_division_states appended store"
      by (simp add: AddDivisionState add_division_state_def Let_def appended_def)
    show ?thesis
      unfolding call using flush_division_states_keeps[of appended store]
      by (simp add: AddDivisionState appended_def)
  next
    case False
    then have call: "do_call w c = (appended, None)"
      by (simp add: AddDivisionState add_division_state_def Let_def appended_def)
    show ?thesis
      unfolding call
      by (intro exI[of _ "[]"]) (simp add: AddDivisionState committed_Nil appended_def)
  qed
next
  case (AddTableState a store)
  define appended where
    "appended = w\<lparr> table_states_buffer := table_states_buffer w @ [table_state_tuple a] \<rparr>"
  show ?thesis
  proof (cases "int (length (table_states_buffer appended)) \<ge> batch_size appended")
    case True
    then have call: "do_call w c = flush_table_states appended store"
      by (simp add: AddTableState add_table_state_def Let_def appended_def)
    show ?thesis
      unfolding call using flush_table_states_keeps[of appended store]
      by (simp add: AddTableState appended_def)
  next
    case False
    then have call: "do_call w c = (appended, None)"
      by (simp add: AddTableState add_table_state_def Let_def appended_def)
    show ?thesis
      unfolding call
      by (intro exI[of _ "[]"]) (simp add: AddTableState committed_Nil appended_def)
  qed
next
  case (FlushAll store_division store_table)
  define w1 where "w1 = fst (flush_division_states w store_division)"
  from flush_division_states_keeps[of w store_division] obtain a1 where
    a1: "committed_txns (conn w1) = committed_txns (conn w) @ a1"
        "batch_size w1 = batch_size w"
        "subseq (division_states_buffer w)
           (committed ''division_states'' a1 @ division_states_buffer w1)"
        "subseq (table_states_buffer w) (committed ''table_states'' a1 @ table_states_buffer w1)"
    unfolding w1_def by blast
  show ?thesis
  proof (cases "snd (flush_division_states w store_division) = None")
    case False
    then have call: "fst (do_call w c) = w1"
      by (auto simp: FlushAll fst_flush_all w1_def)
    from a1 show ?thesis
      unfolding call
      by (intro exI[of _ a1]) (simp add: FlushAll)
  next
    case True
    then have call: "fst (do_call w c) = fst (flush_table_states w1 store_table)"
      by (simp add: FlushAll fst_flush_all w1_def)
    from flush_table_states_keeps[of w1 store_table] obtain a2 where
      a2: "committed_txns (conn (fst (flush_table_states w1 store_table)))
             = committed_txns (conn w1) @ a2"
          "batch_size (fst (flush_table_states w1 store_table)) = batch_size w1"
          "subseq (division_states_buffer w1)
             (committed ''division_states'' a2
                @ division_states_buffer (fst (flush_table_states w1 store_table)))"
          "subseq (table_states_buffer w1)
             (committed ''table_states'' a2
                @ table_states_buffer (fst (flush_table_states w1 store_table)))"
      by blast
    have d: "subseq (division_states_buffer w @ [] @ [])
               (committed ''division_states'' a1 @ committed ''division_states'' a2
                  @ division_states_buffer (fst (flush_table_states w1 store_table)))"
      using subseq_step[of "division_states_buffer w" "[]" _ "division_states_buffer w1" "[]"] a1(3) a2(3)
      by simp
    have t: "subseq (table_states_buffer w @ [] @ [])
               (committed ''table_states'' a1 @ committed ''table_states'' a2
                  @ table_states_buffer (fst (flush_table_states w1 store_table)))"
      using subseq_step[of "table_states_buffer w" "[]" _ "table_states_buffer w1" "[]"] a1(4) a2(4)
      by simp
    from a1(1,2) a2(1,2) d t show ?thesis
      unfolding call
      by (intro exI[of _ "a1 @ a2"]) (simp add: FlushAll committed_append)
  qed
qed

lemma run_calls_keeps:
  "\<exists>added. committed_txns (conn (run_calls w calls)) = committed_txns (conn w) @ added
     \<and> batch_size (run_calls w calls) = batch_size w
     \<and> subseq (division_states_buffer w @ enqueued_division calls)
          (committed ''division_states'' added @ division_states_buffer (run_calls w calls))
     \<and> subseq (table_states_buffer w @ enqueued_table calls)
          (committed ''table_states'' added @ table_states_buffer (run_calls w calls))"
proof (induction calls arbitrary: w)
  case Nil
  show ?case
    by (intro exI[of _ "[]"]) (simp add: run_calls_Nil committed_Nil)
next
  case (Cons c cs)
  define w1 where "w1 = fst (do_call w c)"
  from do_call_keeps[of w c] obtain a1 where
    a1: "committed_txns (conn w1) = committed_txns (conn w) @ a1"
        "batch_size w1 = batch_size w"
        "subseq (division_states_buffer w @ enqueued_division [c])
           (committed ''division_states'' a1 @ division_states_buffer w1)"
        "subseq (table_states_buffer w @ enqueued_table [c])
           (committed ''table_states'' a1 @ table_states_buffer w1)"
    unfolding w1_def by blast
  from Cons.IH[of w1] obtain a2 where
    a2: "committed_txns (conn (run_calls w1 cs)) = committed_txns (conn w1) @ a2"
        "batch_size (run_calls w1 cs) = batch_size w1"
        "subseq (division_states_buffer w1 @ enqueued_division cs)
           (committed ''division_states'' a2 @ division_states_buffer (run_calls w1 cs))"
        "subseq (table_states_buffer w1 @ enqueued_table cs)
           (committed ''table_states'' a2 @ table_states_buffer (run_calls w1 cs))"
    by blast
  have run: "run_calls w (c # cs) = run_calls w1 cs"
    by (simp add: run_calls_Cons w1_def)
  have d: "subseq (division_states_buffer w @ enqueued_division [c] @ enqueued_division cs)
             (committed ''division_states'' a1 @ committed ''division_states'' a2
                @ division_states_buffer (run_calls w1 cs))"
    using a1(3) a2(3) by (rule subseq_step)
  have t: "subseq (table_states_buffer w @ enqueued_table [c] @ enqueued_table cs)
             (committed ''table_states'' a1 @ committed ''table_states'' a2
                @ table_states_buffer (run_calls w1 cs))"
    using a1(4) a2(4) by (rule subseq_step)
  from a1(1,2) a2(1,2) d t show ?case
    by (intro exI[of _ "a1 @ a2"])
       (simp add: run committed_append enqueued_division_Cons[of c cs, symmetric]
          enqueued_table_Cons[of c cs, symmetric])
qed

text \<open>
  While the store fails no flush and no transaction was open at the start, every
  transaction is one flushed buffer.
\<close>

lemma do_call_succeeds_step:
  assumes "buffers_below_batch_size w" and "pending (conn w) = []" and "store_succeeds c"
  shows "\<exists>added. committed_txns (conn (fst (do_call w c))) = committed_txns (conn w) @ added
           \<and> transactions_bounded (batch_size w) added
           \<and> batch_size (fst (do_call w c)) = batch_size w
           \<and> buffers_below_batch_size (fst (do_call w c))
           \<and> pending (conn (fst (do_call w c))) = []
           \<and> committed ''division_states'' added @ division_states_buffer (fst (do_call w c))
               = division_states_buffer w @ enqueued_division [c]
           \<and> committed ''table_states'' added @ table_states_buffer (fst (do_call w c))
               = table_states_buffer w @ enqueued_table [c]"
proof (cases c)
  case (AddDivisionState a store)
  with assms(3) have store: "store = Succeeds" by simp
  show ?thesis
  proof (cases "int (length (division_states_buffer w)) + 1 \<ge> batch_size w")
    case True
    with assms(1,2) show ?thesis
      unfolding AddDivisionState store
      by (intro exI[of _ "[map (Pair ''division_states'')
                             (division_states_buffer w @ [division_state_tuple a])]"])
         (simp add: add_division_state_def flush_division_states_def Let_def
            buffers_below_batch_size_def transactions_bounded_def committed_def rows_of_def
            comp_def)
  next
    case False
    with assms(1,2) show ?thesis
      unfolding AddDivisionState store
      by (intro exI[of _ "[]"])
         (simp add: add_division_state_def flush_division_states_def Let_def
            buffers_below_batch_size_def transactions_bounded_def committed_def)
  qed
next
  case (AddTableState a store)
  with assms(3) have store: "store = Succeeds" by simp
  show ?thesis
  proof (cases "int (length (table_states_buffer w)) + 1 \<ge> batch_size w")
    case True
    with assms(1,2) show ?thesis
      unfolding AddTableState store
      by (intro exI[of _ "[map (Pair ''table_states'')
                             (table_states_buffer w @ [table_state_tuple a])]"])
         (simp add: add_table_state_def flush_table_states_def Let_def
            buffers_below_batch_size_def transactions_bounded_def committed_def rows_of_def
            comp_def)
  next
    case False
    with assms(1,2) show ?thesis
      unfolding AddTableState store
      by (intro exI[of _ "[]"])
         (simp add: add_table_state_def flush_table_states_def Let_def
            buffers_below_batch_size_def transactions_bounded_def committed_def)
  qed
next
  case (FlushAll store_division store_table)
  with assms(3) have store: "store_division = Succeeds" "store_table = Succeeds" by simp_all
  from assms(1,2) show ?thesis
    unfolding FlushAll store
    by (intro exI[of _ "(if division_states_buffer w = [] then []
                          else [map (Pair ''division_states'') (division_states_buffer w)])
                        @ (if table_states_buffer w = [] then []
                           else [map (Pair ''table_states'') (table_states_buffer w)])"])
       (auto simp: flush_all_def flush_division_states_def flush_table_states_def Let_def
          buffers_below_batch_size_def transactions_bounded_def committed_def rows_of_def
          comp_def)
qed

lemma run_calls_succeeds:
  "buffers_below_batch_size w \<Longrightarrow> pending (conn w) = [] \<Longrightarrow> list_all store_succeeds calls \<Longrightarrow>
     \<exists>added. committed_txns (conn (run_calls w calls)) = committed_txns (conn w) @ added
        \<and> transactions_bounded (batch_size w) added
        \<and> batch_size (run_calls w calls) = batch_size w
        \<and> buffers_below_batch_size (run_calls w calls)
        \<and> pending (conn (run_calls w calls)) = []
        \<and> committed ''division_states'' added @ division_states_buffer (run_calls w calls)
            = division_states_buffer w @ enqueued_division calls
        \<and> committed ''table_states'' added @ table_states_buffer (run_calls w calls)
            = table_states_buffer w @ enqueued_table calls"
proof (induction calls arbitrary: w)
  case Nil
  then show ?case
    by (intro exI[of _ "[]"]) (simp add: run_calls_Nil transactions_bounded_def committed_Nil)
next
  case (Cons c cs)
  define w1 where "w1 = fst (do_call w c)"
  from Cons.prems(3) have ok: "store_succeeds c" "list_all store_succeeds cs" by simp_all
  from do_call_succeeds_step[OF Cons.prems(1,2) ok(1)] obtain a1 where
    a1: "committed_txns (conn w1) = committed_txns (conn w) @ a1"
        "transactions_bounded (batch_size w) a1"
        "batch_size w1 = batch_size w" "buffers_below_batch_size w1"
        "pending (conn w1) = []"
        "committed ''division_states'' a1 @ division_states_buffer w1
           = division_states_buffer w @ enqueued_division [c]"
        "committed ''table_states'' a1 @ table_states_buffer w1
           = table_states_buffer w @ enqueued_table [c]"
    unfolding w1_def by blast
  from Cons.IH[OF a1(4,5) ok(2)] obtain a2 where
    a2: "committed_txns (conn (run_calls w1 cs)) = committed_txns (conn w1) @ a2"
        "transactions_bounded (batch_size w1) a2"
        "batch_size (run_calls w1 cs) = batch_size w1"
        "buffers_below_batch_size (run_calls w1 cs)"
        "pending (conn (run_calls w1 cs)) = []"
        "committed ''division_states'' a2 @ division_states_buffer (run_calls w1 cs)
           = division_states_buffer w1 @ enqueued_division cs"
        "committed ''table_states'' a2 @ table_states_buffer (run_calls w1 cs)
           = table_states_buffer w1 @ enqueued_table cs"
    by blast
  have run: "run_calls w (c # cs) = run_calls w1 cs"
    by (simp add: run_calls_Cons w1_def)
  have d: "committed ''division_states'' (a1 @ a2) @ division_states_buffer (run_calls w (c # cs))
            = division_states_buffer w @ enqueued_division (c # cs)"
    using a1(6) a2(6)
    by (simp only: run committed_append append_assoc enqueued_division_Cons[of c cs])
       (simp only: append_assoc[symmetric])
  have t: "committed ''table_states'' (a1 @ a2) @ table_states_buffer (run_calls w (c # cs))
            = table_states_buffer w @ enqueued_table (c # cs)"
    using a1(7) a2(7)
    by (simp only: run committed_append append_assoc enqueued_table_Cons[of c cs])
       (simp only: append_assoc[symmetric])
  show ?case
    using a1(1-5) a2(1-5) d t
    by (intro exI[of _ "a1 @ a2"]) (simp add: run transactions_bounded_append)
qed

text \<open>
  Claim C9, as the code has it.  For a writer created with a batch size of at least 1 on a
  connection with no open transaction, and calls during which the store fails no flush:
  every transaction committed holds at least one and at most \<open>batch_size\<close> rows, between
  calls each buffer holds fewer than \<open>batch_size\<close> rows, and per table the committed rows
  followed by the buffered ones are exactly the rows enqueued, in order.  For every batch
  size and whatever the store does, the rows enqueued are found, in order, among the rows
  committed and those still buffered: none is dropped.  An enqueue that brings a buffer to
  \<open>batch_size\<close> commits the whole buffer in one transaction inside the call and empties it;
  when the store fails that flush, the exception reaches the producer, nothing is
  committed and the buffer keeps all its rows.
\<close>

theorem event_buffer_commits_in_batches:
  "(1 \<le> n \<and> pending c0 = [] \<and> list_all store_succeeds calls \<longrightarrow>
      (\<exists>added. committed_txns (conn (run_calls (batch_writer_init c0 n) calls))
                  = committed_txns c0 @ added
          \<and> transactions_bounded n added
          \<and> committed ''division_states'' added
               @ division_states_buffer (run_calls (batch_writer_init c0 n) calls)
             = enqueued_division calls
          \<and> committed ''table_states'' added
               @ table_states_buffer (run_calls (batch_writer_init c0 n) calls)
             = enqueued_table calls)
      \<and> pending (conn (run_calls (batch_writer_init c0 n) calls)) = []
      \<and> buffers_below_batch_size (run_calls (batch_writer_init c0 n) calls))
   \<and> (\<exists>added. committed_txns (conn (run_calls (batch_writer_init c0 n) calls))
                 = committed_txns c0 @ added
         \<and> subseq (enqueued_division calls)
              (committed ''division_states'' added
                 @ division_states_buffer (run_calls (batch_writer_init c0 n) calls))
         \<and> subseq (enqueued_table calls)
              (committed ''table_states'' added
                 @ table_states_buffer (run_calls (batch_writer_init c0 n) calls)))
   \<and> (batch_size w \<le> int (length (division_states_buffer w)) + 1 \<longrightarrow>
        add_division_state w a Succeeds =
          (w\<lparr> conn := \<lparr> committed_txns = committed_txns (conn w)
                          @ [pending (conn w)
                             @ map (Pair ''division_states'')
                                 (division_states_buffer w @ [division_state_tuple a])],
                        pending = [] \<rparr>,
              total_division_inserts :=
                total_division_inserts w + (length (division_states_buffer w) + 1),
              total_commits := total_commits w + 1,
              division_states_buffer := [] \<rparr>,
           None))
   \<and> (batch_size w \<le> int (length (division_states_buffer w)) + 1 \<and> store \<noteq> Succeeds \<longrightarrow>
        snd (add_division_state w a store) = Some OperationalError
        \<and> committed_txns (conn (fst (add_division_state w a store))) = committed_txns (conn w)
        \<and> division_states_buffer (fst (add_division_state w a store))
            = division_states_buffer w @ [division_state_tuple a])
   \<and> (batch_size w \<le> int (length (table_states_buffer w)) + 1 \<longrightarrow>
        add_table_state w b Succeeds =
          (w\<lparr> conn := \<lparr> committed_txns = committed_txns (conn w)
                          @ [pending (conn w)
                             @ map (Pair ''table_states'')
                                 (table_states_buffer w @ [table_state_tuple b])],
                        pending = [] \<rparr>,
              total_table_inserts :=
                total_table_inserts w + (length (table_states_buffer w) + 1),
              total_commits := total_commits w + 1,
              table_states_buffer := [] \<rparr>,
           None))
   \<and> (batch_size w \<le> int (length (table_states_buffer w)) + 1 \<and> store \<noteq> Succeeds \<longrightarrow>
        snd (add_table_state w b store) = Some OperationalError
        \<and> committed_txns (conn (fst (add_table_state w b store))) = committed_txns (conn w)
        \<and> table_states_buffer (fst (add_table_state w b store))
            = table_states_buffer w @ [table_state_tuple b])"
proof -
  have in_batches: "1 \<le> n \<and> pending c0 = [] \<and> list_all store_succeeds calls \<longrightarrow>
      (\<exists>added. committed_txns (conn (run_calls (batch_writer_init c0 n) calls))
                  = committed_txns c0 @ added
          \<and> transactions_bounded n added
          \<and> committed ''division_states'' added
               @ division_states_buffer (run_calls (batch_writer_init c0 n) calls)
             = enqueued_division calls
          \<and> committed ''table_states'' added
               @ table_states_buffer (run_calls (batch_writer_init c0 n) calls)
             = enqueued_table calls)
      \<and> pending (conn (run_calls (batch_writer_init c0 n) calls)) = []
      \<and> buffers_below_batch_size (run_calls (batch_writer_init c0 n) calls)"
  proof (intro impI)
    assume ok: "1 \<le> n \<and> pending c0 = [] \<and> list_all store_succeeds calls"
    then have start: "buffers_below_batch_size (batch_writer_init c0 n)"
      "pending (conn (batch_writer_init c0 n)) = []"
      by (simp_all add: buffers_below_batch_size_def batch_writer_init_def)
    from ok have calls: "list_all store_succeeds calls" by simp
    from run_calls_succeeds[OF start calls] show
      "(\<exists>added. committed_txns (conn (run_calls (batch_writer_init c0 n) calls))
                  = committed_txns c0 @ added
          \<and> transactions_bounded n added
          \<and> committed ''division_states'' added
               @ division_states_buffer (run_calls (batch_writer_init c0 n) calls)
             = enqueued_division calls
          \<and> committed ''table_states'' added
               @ table_states_buffer (run_calls (batch_writer_init c0 n) calls)
             = enqueued_table calls)
      \<and> pending (conn (run_calls (batch_writer_init c0 n) calls)) = []
      \<and> buffers_below_batch_size (run_calls (batch_writer_init c0 n) calls)"
      by (auto simp: batch_writer_init_def)
  qed
  have none_dropped: "\<exists>added. committed_txns (conn (run_calls (batch_writer_init c0 n) calls))
                 = committed_txns c0 @ added
         \<and> subseq (enqueued_division calls)
              (committed ''division_states'' added
                 @ division_states_buffer (run_calls (batch_writer_init c0 n) calls))
         \<and> subseq (enqueued_table calls)
              (committed ''table_states'' added
                 @ table_states_buffer (run_calls (batch_writer_init c0 n) calls))"
    using run_calls_keeps[of "batch_writer_init c0 n" calls]
    by (auto simp: batch_writer_init_def)
  have division_flush: "batch_size w \<le> int (length (division_states_buffer w)) + 1 \<longrightarrow>
        add_division_state w a Succeeds =
          (w\<lparr> conn := \<lparr> committed_txns = committed_txns (conn w)
                          @ [pending (conn w)
                             @ map (Pair ''division_states'')
                                 (division_states_buffer w @ [division_state_tuple a])],
                        pending = [] \<rparr>,
              total_division_inserts :=
                total_division_inserts w + (length (division_states_buffer w) + 1),
              total_commits := total_commits w + 1,
              division_states_buffer := [] \<rparr>,
           None)"
    by (simp add: add_division_state_def flush_division_states_def Let_def)
  have division_raise:
    "batch_size w \<le> int (length (division_states_buffer w)) + 1 \<and> store \<noteq> Succeeds \<longrightarrow>
        snd (add_division_state w a store) = Some OperationalError
        \<and> committed_txns (conn (fst (add_division_state w a store))) = committed_txns (conn w)
        \<and> division_states_buffer (fst (add_division_state w a store))
            = division_states_buffer w @ [division_state_tuple a]"
    by (cases store) (simp_all add: add_division_state_def flush_division_states_def Let_def)
  have table_flush: "batch_size w \<le> int (length (table_states_buffer w)) + 1 \<longrightarrow>
        add_table_state w b Succeeds =
          (w\<lparr> conn := \<lparr> committed_txns = committed_txns (conn w)
                          @ [pending (conn w)
                             @ map (Pair ''table_states'')
                                 (table_states_buffer w @ [table_state_tuple b])],
                        pending = [] \<rparr>,
              total_table_inserts :=
                total_table_inserts w + (length (table_states_buffer w) + 1),
              total_commits := total_commits w + 1,
              table_states_buffer := [] \<rparr>,
           None)"
    by (simp add: add_table_state_def flush_table_states_def Let_def)
  have table_raise:
    "batch_size w \<le> int (length (table_states_buffer w)) + 1 \<and> store \<noteq> Succeeds \<longrightarrow>
        snd (add_table_state w b store) = Some OperationalError
        \<and> committed_txns (conn (fst (add_table_state w b store))) = committed_txns (conn w)
        \<and> table_states_buffer (fst (add_table_state w b store))
            = table_states_buffer w @ [table_state_tuple b]"
    by (cases store) (simp_all add: add_table_state_def flush_table_states_def Let_def)
  from in_batches none_dropped division_flush division_raise table_flush table_raise
  show ?thesis by (intro conjI)
qed

theorem event_buffer_commits_in_batches_witness:
  "(1::int) \<le> 2 \<and> pending empty_connection = [] \<and> list_all store_succeeds three_events
   \<and> committed_txns (conn (run_calls (batch_writer_init empty_connection 2) three_events))
      = [ [(''division_states'', division_state_tuple (red_at 1)),
          (''division_states'', division_state_tuple (red_at 2))],
         [(''division_states'', division_state_tuple (red_at 3))] ]
   \<and> transactions_bounded 2
        (committed_txns (conn (run_calls (batch_writer_init empty_connection 2) three_events)))
   \<and> division_states_buffer (run_calls (batch_writer_init empty_connection 2) three_events) = []
   \<and> buffers_below_batch_size (run_calls (batch_writer_init empty_connection 2) three_events)
   \<and> batch_size one_each \<le> int (length (division_states_buffer one_each)) + 1
   \<and> batch_size one_each \<le> int (length (table_states_buffer one_each)) + 1
   \<and> ExecutemanyRaises 0 \<noteq> Succeeds
   \<and> committed_txns (conn (fst (add_division_state one_each (red_at 2) Succeeds)))
      = [ [(''division_states'', division_state_tuple (red_at 1)),
          (''division_states'', division_state_tuple (red_at 2))] ]
   \<and> division_states_buffer (fst (add_division_state one_each (red_at 2) Succeeds)) = []
   \<and> snd (add_division_state one_each (red_at 2) (ExecutemanyRaises 0)) = Some OperationalError
   \<and> division_states_buffer (fst (add_division_state one_each (red_at 2) (ExecutemanyRaises 0)))
      = [division_state_tuple (red_at 1), division_state_tuple (red_at 2)]
   \<and> committed_txns (conn (fst (add_table_state one_each (busy_at 2) Succeeds)))
      = [ [(''table_states'', table_state_tuple (busy_at 1)),
          (''table_states'', table_state_tuple (busy_at 2))] ]
   \<and> table_states_buffer (fst (add_table_state one_each (busy_at 2) Succeeds)) = []
   \<and> snd (add_table_state one_each (busy_at 2) (ExecutemanyRaises 0)) = Some OperationalError
   \<and> table_states_buffer (fst (add_table_state one_each (busy_at 2) (ExecutemanyRaises 0)))
      = [table_state_tuple (busy_at 1), table_state_tuple (busy_at 2)]"
proof -
  note inst = event_buffer_commits_in_batches
    [of 2 empty_connection three_events one_each "red_at 2" "ExecutemanyRaises 0" "busy_at 2"]
  have before: "pending empty_connection = []" "committed_txns empty_connection = []"
    "list_all store_succeeds three_events"
    by (simp_all add: empty_connection_def three_events_def)
  have txns: "committed_txns (conn (run_calls (batch_writer_init empty_connection 2) three_events))
      = [ [(''division_states'', division_state_tuple (red_at 1)),
          (''division_states'', division_state_tuple (red_at 2))],
         [(''division_states'', division_state_tuple (red_at 3))] ]"
    by (simp add: run_calls_def three_events_def add_division_state_def batch_writer_init_def
          empty_connection_def flush_all_def flush_division_states_def flush_table_states_def
          Let_def)
  have buffer: "division_states_buffer (run_calls (batch_writer_init empty_connection 2) three_events)
      = []"
    by (simp add: run_calls_def three_events_def add_division_state_def batch_writer_init_def
          empty_connection_def flush_all_def flush_division_states_def flush_table_states_def
          Let_def)
  have writer: "one_each = (batch_writer_init empty_connection 2)
      \<lparr> division_states_buffer := [division_state_tuple (red_at 1)],
        table_states_buffer := [table_state_tuple (busy_at 1)] \<rparr>"
    by (simp add: one_each_def add_division_state_def add_table_state_def batch_writer_init_def
          Let_def)
  have full: "batch_size one_each \<le> int (length (division_states_buffer one_each)) + 1"
    "batch_size one_each \<le> int (length (table_states_buffer one_each)) + 1"
    by (simp_all add: writer batch_writer_init_def)
  have held: "division_states_buffer one_each = [division_state_tuple (red_at 1)]"
    "table_states_buffer one_each = [table_state_tuple (busy_at 1)]"
    "committed_txns (conn one_each) = []" "pending (conn one_each) = []"
    by (simp_all add: writer batch_writer_init_def empty_connection_def)
  from inst before txns buffer full held show ?thesis
    by (simp add: transactions_bounded_def)
qed

text \<open>
  Claim C9 as stated fails when the store fails a flush: with a batch size of 2, the
  second enqueue finds the store locked and raises, the buffer keeps its two rows, and
  the third enqueue commits three rows in one transaction.  It also fails for a batch size
  of 0, where the first enqueue commits one row.
\<close>

theorem failed_flush_commits_oversized_batch:
  "snd (add_division_state
          (fst (add_division_state (batch_writer_init empty_connection 2) (red_at 1) Succeeds))
          (red_at 2) (ExecutemanyRaises 0)) = Some OperationalError
   \<and> batch_size (run_calls (batch_writer_init empty_connection 2) locked_once) = 2
   \<and> committed_txns (conn (run_calls (batch_writer_init empty_connection 2) locked_once))
      = [ [(''division_states'', division_state_tuple (red_at 1)),
          (''division_states'', division_state_tuple (red_at 2)),
          (''division_states'', division_state_tuple (red_at 3))] ]
   \<and> \<not> transactions_bounded 2
        (committed_txns (conn (run_calls (batch_writer_init empty_connection 2) locked_once)))
   \<and> committed_txns (conn (run_calls (batch_writer_init empty_connection 0)
                               [AddDivisionState (red_at 1) Succeeds]))
      = [ [(''division_states'', division_state_tuple (red_at 1))] ]
   \<and> \<not> transactions_bounded 0
        (committed_txns (conn (run_calls (batch_writer_init empty_connection 0)
                                 [AddDivisionState (red_at 1) Succeeds])))"
  by (simp add: run_calls_def locked_once_def add_division_state_def batch_writer_init_def
        empty_connection_def flush_division_states_def Let_def transactions_bounded_def)

end
